theory Spec2Isabelle
  imports Main "HOL-Library.Word" "HOL-Library.Monad_Syntax" "HOL-Library.Sublist"
begin

unbundle bit_operations_syntax

section \<open>The NVM programming engine of UPDI4AVR (NVM.cpp)\<close>

text \<open>
  The firmware runs on an 8-bit AVR: \<open>uint8_t\<close> is \<open>8 word\<close>, \<open>uint16_t\<close> and
  \<open>size_t\<close> are \<open>16 word\<close>, \<open>uint32_t\<close> is \<open>32 word\<close>; memory is little-endian.
\<close>

type_synonym byte = "8 word"
type_synonym u16 = "16 word"
type_synonym u32 = "32 word"

subsection \<open>Constants declared in the headers\<close>

text \<open>
  \<open>NVM.cpp\<close> includes \<open>Prototypes.h\<close>, which is not part of the sources at hand. The
  register addresses, command opcodes, flag bit positions, response codes, packet offsets
  and feature switches it declares are therefore parameters of the model, collected in
  one record; every function below takes it as its first argument \<open>K\<close>.
\<close>

record defs =
  NVMCTRL_REG_CTRLA :: u32
  NVMCTRL_REG_STATUS :: u32
  NVMCTRL_REG_DATA :: u32
  NVMCTRL_V3_REG_STATUS :: u32
  NVM_CMD_NOCMD :: byte
  NVM_CMD_WFU :: byte
  NVM_CMD_PBC :: byte
  NVM_CMD_ERWP :: byte
  NVM_V2_CMD_NOCMD :: byte
  NVM_V2_CMD_FLPER :: byte
  NVM_V2_CMD_FLWR :: byte
  NVM_V2_CMD_EEERWR :: byte
  NVM_V3_CMD_FLPER :: byte
  NVM_V3_CMD_FLPBCLR :: byte
  NVM_V3_CMD_FLPW :: byte
  NVM_V3_CMD_EEPBCLR :: byte
  NVM_V3_CMD_EEPERW :: byte
  UPDI_PROG_bp :: nat
  UPDI_INFO_bp :: nat
  UPDI_ERFM_bp :: nat
  UPDI_GEN2_bp :: nat
  UPDI_GEN3_bp :: nat
  UPDI_GEN5_bp :: nat
  RSP_OK :: byte
  RSP_MEMORY :: byte
  RSP_ILLEGAL_MEMORY_RANGE :: byte
  RSP_ILLEGAL_MEMORY_TYPE :: byte
  RSP_NO_TARGET_POWER :: byte
  MTYPE_SIGN_JTAG :: byte
  MESSAGE_ID :: nat
  RSP_DATA :: nat
  MEM_TYPE :: nat
  DATA_LENGTH :: nat
  DATA_ADDRESS :: nat
  DATA_START :: nat
  ENABLE_ADDFEATS_LOCK_SIG :: bool
  ENABLE_ADDFEATS_DUMP_SIB :: bool

text \<open>
  The memory-type tokens tested by \<open>write_memory\<close> carry their values in the source
  (\<open>case JTAG2::MTYPE_FLASH_PAGE : // 0xB0\<close>, and so on).
\<close>

definition MTYPE_SRAM :: byte where "MTYPE_SRAM = 0x20"
definition MTYPE_EEPROM :: byte where "MTYPE_EEPROM = 0x22"
definition MTYPE_FLASH_PAGE :: byte where "MTYPE_FLASH_PAGE = 0xB0"
definition MTYPE_EEPROM_PAGE :: byte where "MTYPE_EEPROM_PAGE = 0xB1"
definition MTYPE_FUSE_BITS :: byte where "MTYPE_FUSE_BITS = 0xB2"
definition MTYPE_LOCK_BITS :: byte where "MTYPE_LOCK_BITS = 0xB3"
definition MTYPE_XMEGA_APP_FLASH :: byte where "MTYPE_XMEGA_APP_FLASH = 0xC0"
definition MTYPE_XMEGA_BOOT_FLASH :: byte where "MTYPE_XMEGA_BOOT_FLASH = 0xC1"
definition MTYPE_XMEGA_EEPROM :: byte where "MTYPE_XMEGA_EEPROM = 0xC4"
definition MTYPE_XMEGA_USERSIG :: byte where "MTYPE_XMEGA_USERSIG = 0xC5"

subsection \<open>The transport and the target behind it\<close>

text \<open>
  The transport primitives (\<open>UPDI::ld8\<close>, \<open>st8\<close>, \<open>sts8\<close>, \<open>sts8rsd\<close>, \<open>sts16rsd\<close>,
  \<open>lds8\<close>, \<open>lds16\<close>, \<open>write_userrow\<close>) and the delay \<open>TIM::delay_50us\<close> are external
  collaborators. Every call of one of them is recorded, in order, in the \<open>trace\<close> of the
  state. A block transfer records its address, the bytes behind the data pointer (the
  first \<open>byte_count\<close> of them) and the count.
\<close>

datatype call =
    LD8 u32
  | ST8 u32 byte
  | STS8 u32 "byte list" u16
  | STS8RSD u32 "byte list" u16
  | STS16RSD u32 "byte list" u16
  | LDS8 u32 u16
  | LDS16 u32 u16
  | WRITE_USERROW u32 "byte list" u16
  | DELAY_50US

text \<open>
  What the target answers is not decided by this file either. A target is any
  deterministic function of the calls made so far: the byte a single load delivers,
  whether a store is acknowledged, and for a block load whether it succeeds together
  with the bytes it has placed into the buffer.
\<close>

record target =
  t_ld8 :: "call list \<Rightarrow> u32 \<Rightarrow> byte"
  t_store :: "call list \<Rightarrow> call \<Rightarrow> bool"
  t_load :: "call list \<Rightarrow> call \<Rightarrow> bool \<times> byte list"

subsection \<open>State\<close>

record updi_desc_t =
  flash_page_size :: u16
  sib :: "byte list"
  signature :: "byte list"
  nvm_signature_offset :: u16

record packet_t =
  size_word0 :: u16
  body :: "byte list"

text \<open>
  \<open>UPDI_CONTROL\<close>, \<open>UPDI_NVMCTRL\<close> and \<open>UPDI_LASTL\<close> are byte-wide registers of the
  programmer; \<open>response\<close> is the result code last passed to \<open>set_response\<close>.
\<close>

record world =
  trace :: "call list"
  UPDI_LASTL :: byte
  UPDI_CONTROL :: byte
  UPDI_NVMCTRL :: byte
  response :: byte
  updi_desc :: updi_desc_t
  packet :: packet_t

text \<open>
  Modelled from the spec: \<open>set_response\<close> is declared outside the sources at hand; the
  spec describes it as setting the result code of the shared response.
\<close>

definition set_response :: "byte \<Rightarrow> world \<Rightarrow> world" where
  "set_response code w = w\<lparr>response := code\<rparr>"

definition issue :: "call \<Rightarrow> world \<Rightarrow> world" where
  "issue c w = w\<lparr>trace := trace w @ [c]\<rparr>"

text \<open>
  Modelled from the spec: the status waiter "returns the last status byte read", and it
  returns \<open>UPDI_LASTL\<close>; so a single-byte load leaves the byte it received there.
\<close>

definition ld8 :: "target \<Rightarrow> u32 \<Rightarrow> world \<Rightarrow> byte \<times> world" where
  "ld8 T a w = (let v = t_ld8 T (trace w) a in (v, (issue (LD8 a) w)\<lparr>UPDI_LASTL := v\<rparr>))"

definition store_call :: "target \<Rightarrow> call \<Rightarrow> world \<Rightarrow> bool \<times> world" where
  "store_call T c w = (t_store T (trace w) c, issue c w)"

definition st8 :: "target \<Rightarrow> u32 \<Rightarrow> byte \<Rightarrow> world \<Rightarrow> bool \<times> world" where
  "st8 T a v w = store_call T (ST8 a v) w"

definition sts8 :: "target \<Rightarrow> u32 \<Rightarrow> byte list \<Rightarrow> u16 \<Rightarrow> world \<Rightarrow> bool \<times> world" where
  "sts8 T a d n w = store_call T (STS8 a (take (unat n) d) n) w"

definition sts8rsd :: "target \<Rightarrow> u32 \<Rightarrow> byte list \<Rightarrow> u16 \<Rightarrow> world \<Rightarrow> bool \<times> world" where
  "sts8rsd T a d n w = store_call T (STS8RSD a (take (unat n) d) n) w"

definition sts16rsd :: "target \<Rightarrow> u32 \<Rightarrow> byte list \<Rightarrow> u16 \<Rightarrow> world \<Rightarrow> bool \<times> world" where
  "sts16rsd T a d n w = store_call T (STS16RSD a (take (unat n) d) n) w"

definition write_userrow :: "target \<Rightarrow> u32 \<Rightarrow> byte list \<Rightarrow> u16 \<Rightarrow> world \<Rightarrow> bool \<times> world" where
  "write_userrow T a d n w = store_call T (WRITE_USERROW a (take (unat n) d) n) w"

text \<open>
  A block load returns its success flag and the bytes received (at most \<open>n\<close>); the caller
  places them into its buffer with \<open>poke\<close>. A write past the end of the list is dropped.
\<close>

definition load_call :: "target \<Rightarrow> call \<Rightarrow> u16 \<Rightarrow> world \<Rightarrow> bool \<times> byte list \<times> world" where
  "load_call T c n w =
     (let (ok, bs) = t_load T (trace w) c in (ok, take (unat n) bs, issue c w))"

definition lds8 :: "target \<Rightarrow> u32 \<Rightarrow> u16 \<Rightarrow> world \<Rightarrow> bool \<times> byte list \<times> world" where
  "lds8 T a n w = load_call T (LDS8 a n) n w"

definition lds16 :: "target \<Rightarrow> u32 \<Rightarrow> u16 \<Rightarrow> world \<Rightarrow> bool \<times> byte list \<times> world" where
  "lds16 T a n w = load_call T (LDS16 a n) n w"

fun poke :: "nat \<Rightarrow> byte list \<Rightarrow> byte list \<Rightarrow> byte list" where
  "poke p [] buf = buf"
| "poke p (b # bs) buf = poke (Suc p) bs (buf[p := b])"

definition delay_50us :: "world \<Rightarrow> world" where
  "delay_50us w = issue DELAY_50US w"

subsection \<open>NVMCTRL operation\<close>

text \<open>
  \<open>nvm_wait\<close> and \<open>nvm_wait_v3\<close> are the same loop on two status registers:
  \<open>while (UPDI::ld8(reg) & 3) TIM::delay_50us(); return UPDI_LASTL;\<close>. The loop has no
  bound, so it is a partial function: \<open>None\<close> is the run that never leaves the loop.
  (The bookkeeping under \<open>ENABLE_DEBUG_UPDI_SENDER\<close> is a debug build and is left out.)
\<close>

partial_function (option) nvm_wait_reg :: "target \<Rightarrow> u32 \<Rightarrow> world \<Rightarrow> (byte \<times> world) option" where
  "nvm_wait_reg T reg w =
     (case ld8 T reg w of (v, w1) \<Rightarrow>
        if v AND 3 \<noteq> 0 then nvm_wait_reg T reg (delay_50us w1)
        else Some (UPDI_LASTL w1, w1))"

declare nvm_wait_reg.simps [code]

definition nvm_wait :: "defs \<Rightarrow> target \<Rightarrow> world \<Rightarrow> (byte \<times> world) option" where
  "nvm_wait K T w = nvm_wait_reg T (NVMCTRL_REG_STATUS K) w"

definition nvm_wait_v3 :: "defs \<Rightarrow> target \<Rightarrow> world \<Rightarrow> (byte \<times> world) option" where
  "nvm_wait_v3 K T w = nvm_wait_reg T (NVMCTRL_V3_REG_STATUS K) w"

definition nvm_ctrl :: "defs \<Rightarrow> target \<Rightarrow> byte \<Rightarrow> world \<Rightarrow> bool \<times> world" where
  "nvm_ctrl K T nvmcmd w = st8 T (NVMCTRL_REG_CTRLA K) nvmcmd w"

definition nvm_ctrl_change :: "defs \<Rightarrow> target \<Rightarrow> byte \<Rightarrow> world \<Rightarrow> bool \<times> world" where
  "nvm_ctrl_change K T nvmcmd w =
     (case ld8 T (NVMCTRL_REG_CTRLA K) w of (v, w1) \<Rightarrow>
        if v = nvmcmd then (True, w1)
        else case nvm_ctrl K T (NVM_CMD_NOCMD K) w1 of (ok, w2) \<Rightarrow>
          if \<not> ok then (False, w2)
          else if NVM_CMD_NOCMD K \<noteq> nvmcmd then nvm_ctrl K T nvmcmd w2
          else (True, w2))"

definition nvm_ctrl_v2 :: "defs \<Rightarrow> target \<Rightarrow> byte \<Rightarrow> world \<Rightarrow> (bool \<times> world) option" where
  "nvm_ctrl_v2 K T nvmcmd w =
     do { (s, w1) \<leftarrow> nvm_wait K T w; Some (nvm_ctrl_change K T nvmcmd w1) }"

definition nvm_ctrl_v3 :: "defs \<Rightarrow> target \<Rightarrow> byte \<Rightarrow> world \<Rightarrow> (bool \<times> world) option" where
  "nvm_ctrl_v3 K T nvmcmd w =
     do { (s, w1) \<leftarrow> nvm_wait_v3 K T w; Some (nvm_ctrl_change K T nvmcmd w1) }"

subsection \<open>FUSE region write (NVMCTRL version 0 only)\<close>

text \<open>
  \<open>struct fuse_packet_t { uint16_t data; uint16_t addr; }\<close> is sent as the four bytes it
  occupies in memory: the data byte, its zero high byte, then the address, low byte first.
\<close>

definition fuse_packet :: "u16 \<Rightarrow> byte \<Rightarrow> byte list" where
  "fuse_packet a d = [d, 0, ucast a, ucast (drop_bit 8 a)]"

definition write_fuse :: "defs \<Rightarrow> target \<Rightarrow> u16 \<Rightarrow> byte \<Rightarrow> world \<Rightarrow> (bool \<times> world) option" where
  "write_fuse K T a d w =
     do {
       (s0, w1) \<leftarrow> nvm_wait K T w;
       (case sts8 T (NVMCTRL_REG_DATA K) (fuse_packet a d) 4 w1 of (ok1, w2) \<Rightarrow>
          if \<not> ok1 then Some (False, w2)
          else case nvm_ctrl K T (NVM_CMD_WFU K) w2 of (ok2, w3) \<Rightarrow>
            if \<not> ok2 then Some (False, w3)
            else do { (s, w4) \<leftarrow> nvm_wait K T w3; Some (s AND 7 = 0, w4) })
     }"

subsection \<open>EEPROM region writing\<close>

text \<open>
  The load statement shared by the writers,
  \<open>if (byte_count == 1) UPDI::st8(start_addr, *data); else UPDI::sts8(start_addr, data, byte_count);\<close>
  (with \<open>sts8rsd\<close> in the bulk writers): its result is dropped by the source.
\<close>

definition load_sts8 :: "target \<Rightarrow> u32 \<Rightarrow> byte list \<Rightarrow> u16 \<Rightarrow> world \<Rightarrow> world" where
  "load_sts8 T start_addr d byte_count w =
     (if byte_count = 1 then snd (st8 T start_addr (hd d) w)
      else snd (sts8 T start_addr d byte_count w))"

definition load_sts8rsd :: "target \<Rightarrow> u32 \<Rightarrow> byte list \<Rightarrow> u16 \<Rightarrow> world \<Rightarrow> world" where
  "load_sts8rsd T start_addr d byte_count w =
     (if byte_count = 1 then snd (st8 T start_addr (hd d) w)
      else snd (sts8rsd T start_addr d byte_count w))"

definition write_eeprom_v3 ::
  "defs \<Rightarrow> target \<Rightarrow> u32 \<Rightarrow> byte list \<Rightarrow> u16 \<Rightarrow> world \<Rightarrow> bool \<times> world" where
  "write_eeprom_v3 K T start_addr d byte_count w =
     (if byte_count > 8 then (True, set_response (RSP_ILLEGAL_MEMORY_RANGE K) w)
      else case nvm_ctrl K T (NVM_V3_CMD_EEPBCLR K) w of (ok, w1) \<Rightarrow>
        if \<not> ok then (False, w1)
        else nvm_ctrl K T (NVM_V3_CMD_EEPERW K) (load_sts8 T start_addr d byte_count w1))"

definition write_eeprom_v2 ::
  "defs \<Rightarrow> target \<Rightarrow> u32 \<Rightarrow> byte list \<Rightarrow> u16 \<Rightarrow> world \<Rightarrow> (bool \<times> world) option" where
  "write_eeprom_v2 K T start_addr d byte_count w =
     (if byte_count > 2 then Some (True, set_response (RSP_ILLEGAL_MEMORY_RANGE K) w)
      else do {
        (ok, w1) \<leftarrow> nvm_ctrl_v2 K T (NVM_V2_CMD_EEERWR K) w;
        if \<not> ok then Some (False, w1)
        else nvm_ctrl_v2 K T (NVM_V2_CMD_NOCMD K) (load_sts8 T start_addr d byte_count w1)
      })"

definition write_eeprom_v0 ::
  "defs \<Rightarrow> target \<Rightarrow> u32 \<Rightarrow> byte list \<Rightarrow> u16 \<Rightarrow> world \<Rightarrow> (bool \<times> world) option" where
  "write_eeprom_v0 K T start_addr d byte_count w =
     (if byte_count > 64 then Some (True, set_response (RSP_ILLEGAL_MEMORY_RANGE K) w)
      else do {
        (s, w1) \<leftarrow> nvm_wait K T w;
        Some (nvm_ctrl K T (NVM_CMD_ERWP K) (load_sts8rsd T start_addr d byte_count w1))
      })"

subsection \<open>Flash region writing\<close>

definition write_flash_v3 ::
  "defs \<Rightarrow> target \<Rightarrow> u32 \<Rightarrow> byte list \<Rightarrow> u16 \<Rightarrow> bool \<Rightarrow> world \<Rightarrow> (bool \<times> world) option" where
  "write_flash_v3 K T start_addr d byte_count is_bound w =
     do {
       (s0, w1) \<leftarrow> nvm_wait_v3 K T w;
       (ok, w2) \<leftarrow> Some
          (if is_bound then
             (case st8 T start_addr 0xFF w1 of (ok1, w1a) \<Rightarrow>
                if \<not> ok1 then (False, w1a) else nvm_ctrl K T (NVM_V3_CMD_FLPER K) w1a)
           else nvm_ctrl K T (NVM_V3_CMD_FLPBCLR K) w1);
       if \<not> ok then Some (False, w2)
       else do {
         (s1, w3) \<leftarrow> nvm_wait_v3 K T w2;
         Some (nvm_ctrl K T (NVM_V3_CMD_FLPW K) (load_sts8rsd T start_addr d byte_count w3))
       }
     }"

text \<open>
  Version 2 loads up to 512 bytes:
  \<open>else if ((byte_count - 1) >> 8) UPDI::sts16rsd(...); else UPDI::sts8rsd(...);\<close>
\<close>

definition load_v2 :: "target \<Rightarrow> u32 \<Rightarrow> byte list \<Rightarrow> u16 \<Rightarrow> world \<Rightarrow> world" where
  "load_v2 T start_addr d byte_count w =
     (if byte_count = 1 then snd (st8 T start_addr (hd d) w)
      else if drop_bit 8 (byte_count - 1) \<noteq> 0 then snd (sts16rsd T start_addr d byte_count w)
      else snd (sts8rsd T start_addr d byte_count w))"

definition write_flash_v2 ::
  "defs \<Rightarrow> target \<Rightarrow> u32 \<Rightarrow> byte list \<Rightarrow> u16 \<Rightarrow> bool \<Rightarrow> world \<Rightarrow> (bool \<times> world) option" where
  "write_flash_v2 K T start_addr d byte_count is_bound w =
     do {
       (ok, w2) \<leftarrow>
          (if is_bound then
             do {
               (ok0, w0) \<leftarrow> nvm_ctrl_v2 K T (NVM_V2_CMD_FLPER K) w;
               if \<not> ok0 then Some (False, w0) else Some (st8 T start_addr 0xFF w0)
             }
           else Some (True, w));
       if \<not> ok then Some (False, w2)
       else do {
         (ok3, w3) \<leftarrow> nvm_ctrl_v2 K T (NVM_V2_CMD_FLWR K) w2;
         if \<not> ok3 then Some (False, w3)
         else nvm_ctrl_v2 K T (NVM_V2_CMD_NOCMD K) (load_v2 T start_addr d byte_count w3)
       }
     }"

definition write_flash_v0 ::
  "defs \<Rightarrow> target \<Rightarrow> u32 \<Rightarrow> byte list \<Rightarrow> u16 \<Rightarrow> bool \<Rightarrow> world \<Rightarrow> (bool \<times> world) option" where
  "write_flash_v0 K T start_addr d byte_count is_bound w =
     do {
       (ok, w2) \<leftarrow>
          (if is_bound then
             do { (s0, w0) \<leftarrow> nvm_wait K T w; Some (nvm_ctrl K T (NVM_CMD_PBC K) w0) }
           else Some (True, w));
       if \<not> ok then Some (False, w2)
       else do {
         (s1, w3) \<leftarrow> nvm_wait K T w2;
         Some (nvm_ctrl K T (NVM_CMD_ERWP K) (load_sts8rsd T start_addr d byte_count w3))
       }
     }"

subsection \<open>Signature reading\<close>

definition set_signature :: "byte list \<Rightarrow> world \<Rightarrow> world" where
  "set_signature sg w = w\<lparr>updi_desc := (updi_desc w)\<lparr>signature := sg\<rparr>\<rparr>"

definition set_body :: "byte list \<Rightarrow> world \<Rightarrow> world" where
  "set_body b w = w\<lparr>packet := (packet w)\<lparr>body := b\<rparr>\<rparr>"

text \<open>
  The block under \<open>ENABLE_ADDFEATS_LOCK_SIG_DEBUGOUT\<close> dumps the memory image of the
  descriptor behind the answer; it is a debug build and is left out. The space character
  \<open>' '\<close> is \<open>0x20\<close>.
\<close>

definition read_signature :: "defs \<Rightarrow> target \<Rightarrow> u16 \<Rightarrow> world \<Rightarrow> bool \<times> world" where
  "read_signature K T start_addr w =
     (let w3 =
        (if start_addr = (if bit (UPDI_NVMCTRL w) (UPDI_GEN5_bp K) then 0x1080 else 0x1100) then
           let w1 = w\<lparr>updi_desc := (updi_desc w)\<lparr>nvm_signature_offset := start_addr\<rparr>\<rparr> in
           if bit (UPDI_CONTROL w1) (UPDI_PROG_bp K) then
             (case lds8 T (ucast start_addr) 3 w1 of (ok, bs, w2) \<Rightarrow>
                let w2a = set_signature (poke 0 bs (signature (updi_desc w2))) w2 in
                if \<not> ok then
                  set_signature ((signature (updi_desc w2a))[0 := 0, 1 := 0, 2 := 0]) w2a
                else w2a)
           else if bit (UPDI_CONTROL w1) (UPDI_INFO_bp K) then
             let c = sib (updi_desc w1) ! 0;
                 c = (if c = 0x20 then sib (updi_desc w1) ! 4 else c) in
             set_signature
               ((signature (updi_desc w1))[0 := 0x1E, 1 := c, 2 := sib (updi_desc w1) ! 10]) w1
           else
             set_signature ((signature (updi_desc w1))[0 := 0xFF, 1 := 0xFF, 2 := 0xFF]) w1
         else w);
        idx = (ucast (start_addr - nvm_signature_offset (updi_desc w3)) :: byte)
      in if idx < 3 then
           (True, set_body ((body (packet w3))[RSP_DATA K := signature (updi_desc w3) ! unat idx]) w3)
         else (False, w3))"

subsection \<open>Memory reading core\<close>

text \<open>
  The dummy fill \<open>do { *data++ = 0xFF; } while (--byte_count);\<close> on the 16-bit counter:
  the decrement wraps, so a counter of 0 on entry would run 65536 times.
\<close>

function fill_ff :: "nat \<Rightarrow> u16 \<Rightarrow> byte list \<Rightarrow> byte list" where
  "fill_ff p byte_count buf =
     (let buf1 = buf[p := 0xFF]; n1 = byte_count - 1
      in if n1 \<noteq> 0 then fill_ff (Suc p) n1 buf1 else buf1)"
  by pat_completeness auto
termination
proof (relation "measure (\<lambda>(p, n, buf). unat (n - 1))", goal_cases)
  case 1
  show ?case by simp
next
  case (2 p byte_count buf x xa)
  have "unat (y - 1) < unat y" if "y \<noteq> 0" for y :: u16
    using that by (simp add: unat_minus_one unat_gt_0)
  from this [of xa] 2 show ?case by simp
qed

declare fill_ff.simps [simp del]

text \<open>
  \<open>(_CAPS32(start_addr)->bytes[2] & 0x80) == 0\<close> tests the top bit of the third byte of
  the address; \<open>sizeof(JTAG2::updi_desc.sib)\<close> is the length of the identification block.
\<close>

definition read_memory :: "defs \<Rightarrow> target \<Rightarrow> u32 \<Rightarrow> u16 \<Rightarrow> world \<Rightarrow> bool \<times> world" where
  "read_memory K T start_addr byte_count w =
     (let w0 = set_body ((body (packet w))[MESSAGE_ID K := RSP_MEMORY K]) w in
      if byte_count = 0 \<or> byte_count > 512 \<or> (byte_count > 256 \<and> byte_count AND 1 \<noteq> 0) then
        (True, set_response (RSP_ILLEGAL_MEMORY_RANGE K) w0)
      else
        let w1 = w0\<lparr>packet := (packet w0)\<lparr>size_word0 := byte_count + 1\<rparr>\<rparr> in
        if byte_count = 1 \<and> ENABLE_ADDFEATS_LOCK_SIG K
           \<and> body (packet w1) ! MEM_TYPE K = MTYPE_SIGN_JTAG K then
          read_signature K T (ucast start_addr) w1
        else if byte_count = 1 \<and> ENABLE_ADDFEATS_DUMP_SIB K
           \<and> bit (UPDI_CONTROL w1) (UPDI_PROG_bp K)
           \<and> (ucast (drop_bit 16 start_addr) :: byte) AND 0x80 = 0
           \<and> unat (ucast start_addr :: u16) < length (sib (updi_desc w1)) then
          (True, set_body ((body (packet w1))
                   [RSP_DATA K := sib (updi_desc w1) ! unat (ucast start_addr :: byte)]) w1)
        else if \<not> bit (UPDI_CONTROL w1) (UPDI_PROG_bp K) then
          (True, set_body (fill_ff (RSP_DATA K) byte_count (body (packet w1))) w1)
        else if drop_bit 8 (byte_count - 1) \<noteq> 0 then
          (case lds16 T start_addr byte_count w1 of (ok, bs, w2) \<Rightarrow>
             (ok, set_body (poke (RSP_DATA K) bs (body (packet w2))) w2))
        else
          (case lds8 T start_addr byte_count w1 of (ok, bs, w2) \<Rightarrow>
             (ok, set_body (poke (RSP_DATA K) bs (body (packet w2))) w2)))"

subsection \<open>NVM write core\<close>

text \<open>
  Modelled from the spec: \<open>_CAPS16\<close> and \<open>_CAPS32\<close> come from \<open>api/capsule.h\<close>, which is
  not part of the sources at hand; they read the 16-bit length and the 32-bit address of
  the request from the packet body, low byte first.
\<close>

definition caps16 :: "byte list \<Rightarrow> nat \<Rightarrow> u16" where
  "caps16 b i = ucast (b ! i) OR push_bit 8 (ucast (b ! (i + 1)))"

definition caps32 :: "byte list \<Rightarrow> nat \<Rightarrow> u32" where
  "caps32 b i = ucast (b ! i) OR push_bit 8 (ucast (b ! (i + 1)))
                  OR push_bit 16 (ucast (b ! (i + 2))) OR push_bit 24 (ucast (b ! (i + 3)))"

text \<open>
  The fuse loop of \<open>write_memory\<close>:
  \<open>do { if (!write_fuse(start_addr++, *data++)) return false; } while (--byte_count);\<close>
  The result \<open>True\<close> stands for leaving the loop by \<open>break\<close>.
\<close>

function write_fuse_loop ::
  "defs \<Rightarrow> target \<Rightarrow> u32 \<Rightarrow> byte list \<Rightarrow> u16 \<Rightarrow> world \<Rightarrow> (bool \<times> world) option" where
  "write_fuse_loop K T start_addr d byte_count w =
     (case write_fuse K T (ucast start_addr) (hd d) w of
        None \<Rightarrow> None
      | Some (ok, w1) \<Rightarrow>
          if \<not> ok then Some (False, w1)
          else if byte_count - 1 \<noteq> 0 then
            write_fuse_loop K T (start_addr + 1) (tl d) (byte_count - 1) w1
          else Some (True, w1))"
  by pat_completeness auto
termination
proof (relation "measure (\<lambda>(K, T, a, d, n, w). unat (n - 1))", goal_cases)
  case 1
  show ?case by simp
next
  case (2 K T start_addr d byte_count w)
  have "unat (y - 1) < unat y" if "y \<noteq> 0" for y :: u16
    using that by (simp add: unat_minus_one unat_gt_0)
  from this [of "byte_count - 1"] 2 show ?case by simp
qed

declare write_fuse_loop.simps [simp del]

definition is_flash_type :: "byte \<Rightarrow> bool" where
  "is_flash_type mem_type \<longleftrightarrow>
     mem_type = MTYPE_FLASH_PAGE \<or> mem_type = MTYPE_XMEGA_APP_FLASH
     \<or> mem_type = MTYPE_XMEGA_BOOT_FLASH"

definition req_mem_type :: "defs \<Rightarrow> world \<Rightarrow> byte" where
  "req_mem_type K w = body (packet w) ! MEM_TYPE K"

definition req_data :: "defs \<Rightarrow> world \<Rightarrow> byte list" where
  "req_data K w = drop (DATA_START K) (body (packet w))"

definition req_byte_count :: "defs \<Rightarrow> world \<Rightarrow> u16" where
  "req_byte_count K w = caps16 (body (packet w)) (DATA_LENGTH K)"

definition req_start_addr :: "defs \<Rightarrow> world \<Rightarrow> u32" where
  "req_start_addr K w = caps32 (body (packet w)) (DATA_ADDRESS K)"

text \<open>
  \<open>write_memory\<close> starts with
  \<open>if (start_addr >> 24) { start_addr &= 0xFFFF; mem_type = JTAG2::MTYPE_SRAM; }\<close>;
  the two definitions give the values of the locals \<open>mem_type\<close> and \<open>start_addr\<close>
  after it, on which the rest of the function dispatches.
\<close>

definition dispatch_mem_type :: "defs \<Rightarrow> world \<Rightarrow> byte" where
  "dispatch_mem_type K w =
     (if drop_bit 24 (req_start_addr K w) \<noteq> 0 then MTYPE_SRAM else req_mem_type K w)"

definition dispatch_start_addr :: "defs \<Rightarrow> world \<Rightarrow> u32" where
  "dispatch_start_addr K w =
     (if drop_bit 24 (req_start_addr K w) \<noteq> 0 then req_start_addr K w AND 0xFFFF
      else req_start_addr K w)"

text \<open>
  The fuse loop either returns false from inside or is left by \<open>break\<close>, after which
  the function returns true: the result of \<open>write_fuse_loop\<close> is the result of the call.
\<close>

definition write_memory :: "defs \<Rightarrow> target \<Rightarrow> world \<Rightarrow> (bool \<times> world) option" where
  "write_memory K T w =
     (let d = req_data K w;
          byte_count = req_byte_count K w;
          start_addr = dispatch_start_addr K w;
          mem_type = dispatch_mem_type K w;
          w1 = set_response (RSP_OK K) w
      in
      if bit (UPDI_CONTROL w1) (UPDI_INFO_bp K) \<and> mem_type = MTYPE_XMEGA_USERSIG then
        Some (write_userrow T start_addr d byte_count w1)
      else if \<not> bit (UPDI_CONTROL w1) (UPDI_PROG_bp K) then Some (False, w1)
      else if is_flash_type mem_type then
        (if flash_page_size (updi_desc w1) \<noteq> byte_count \<and> 256 \<noteq> byte_count then
           Some (True, set_response (RSP_NO_TARGET_POWER K) w1)
         else
           let is_bound = (\<not> bit (UPDI_CONTROL w1) (UPDI_ERFM_bp K)
                 \<and> (flash_page_size (updi_desc w1) - 1) AND (ucast start_addr :: u16) = 0)
           in if bit (UPDI_NVMCTRL w1) (UPDI_GEN3_bp K) then
                write_flash_v3 K T start_addr d byte_count is_bound w1
              else if bit (UPDI_NVMCTRL w1) (UPDI_GEN2_bp K) then
                write_flash_v2 K T start_addr d byte_count is_bound w1
              else write_flash_v0 K T start_addr d byte_count is_bound w1)
      else if byte_count = 0 \<or> byte_count > 256 then
        Some (True, set_response (RSP_ILLEGAL_MEMORY_RANGE K) w1)
      else if mem_type = MTYPE_SRAM then Some (sts8 T start_addr d byte_count w1)
      else if (mem_type = MTYPE_LOCK_BITS \<or> mem_type = MTYPE_FUSE_BITS)
           \<and> \<not> bit (UPDI_NVMCTRL w1) (UPDI_GEN3_bp K)
           \<and> \<not> bit (UPDI_NVMCTRL w1) (UPDI_GEN2_bp K) then
        write_fuse_loop K T start_addr d byte_count w1
      else if mem_type = MTYPE_LOCK_BITS \<or> mem_type = MTYPE_FUSE_BITS
           \<or> mem_type = MTYPE_XMEGA_EEPROM \<or> mem_type = MTYPE_EEPROM_PAGE
           \<or> mem_type = MTYPE_EEPROM then
        (if bit (UPDI_NVMCTRL w1) (UPDI_GEN3_bp K) then
           Some (write_eeprom_v3 K T start_addr d byte_count w1)
         else if bit (UPDI_NVMCTRL w1) (UPDI_GEN2_bp K) then
           write_eeprom_v2 K T start_addr d byte_count w1
         else write_eeprom_v0 K T start_addr d byte_count w1)
      else Some (True, set_response (RSP_ILLEGAL_MEMORY_TYPE K) w1))"

subsection \<open>Vocabulary of the statements\<close>

text \<open>
  A wait that reads a busy status \<open>k\<close> times before it reads an idle one issues
  \<open>poll_calls reg k\<close>; \<open>status_at T reg tr j\<close> is the status the target delivers at
  poll number \<open>j\<close> of a wait that starts after the calls \<open>tr\<close>.
\<close>

fun busy_polls :: "u32 \<Rightarrow> nat \<Rightarrow> call list" where
  "busy_polls reg 0 = []"
| "busy_polls reg (Suc k) = LD8 reg # DELAY_50US # busy_polls reg k"

definition poll_calls :: "u32 \<Rightarrow> nat \<Rightarrow> call list" where
  "poll_calls reg k = busy_polls reg k @ [LD8 reg]"

definition status_at :: "target \<Rightarrow> u32 \<Rightarrow> call list \<Rightarrow> nat \<Rightarrow> byte" where
  "status_at T reg tr j = t_ld8 T (tr @ busy_polls reg j) reg"

definition polled :: "u32 \<Rightarrow> nat \<Rightarrow> byte \<Rightarrow> world \<Rightarrow> world" where
  "polled reg k s w = w\<lparr>trace := trace w @ poll_calls reg k, UPDI_LASTL := s\<rparr>"

text \<open>
  The stores \<open>nvm_ctrl_change\<close> goes for when the control register reads \<open>v\<close> and the
  opcode \<open>nvmcmd\<close> is requested: none when the register already reads the opcode.
\<close>

definition change_stores :: "defs \<Rightarrow> byte \<Rightarrow> byte \<Rightarrow> call list" where
  "change_stores K v nvmcmd =
     (if v = nvmcmd then []
      else ST8 (NVMCTRL_REG_CTRLA K) (NVM_CMD_NOCMD K)
           # (if NVM_CMD_NOCMD K \<noteq> nvmcmd then [ST8 (NVMCTRL_REG_CTRLA K) nvmcmd] else []))"

text \<open>The call by which a flash writer loads its data (the version 2 writer has its own).\<close>

definition flash_load :: "u32 \<Rightarrow> byte list \<Rightarrow> u16 \<Rightarrow> call" where
  "flash_load a d n = (if n = 1 then ST8 a (hd d) else STS8RSD a (take (unat n) d) n)"

definition flash_load_v2 :: "u32 \<Rightarrow> byte list \<Rightarrow> u16 \<Rightarrow> call" where
  "flash_load_v2 a d n =
     (if n = 1 then ST8 a (hd d)
      else if drop_bit 8 (n - 1) \<noteq> 0 then STS16RSD a (take (unat n) d) n
      else STS8RSD a (take (unat n) d) n)"

text \<open>
  The test by which \<open>read_memory\<close> hands a one-byte read to \<open>read_signature\<close> (the
  memory type is read after the message id has been stored), and the offset at which
  \<open>read_signature\<close> queries the target.
\<close>

definition is_signature_read :: "defs \<Rightarrow> u16 \<Rightarrow> world \<Rightarrow> bool" where
  "is_signature_read K n w \<longleftrightarrow>
     n = 1 \<and> ENABLE_ADDFEATS_LOCK_SIG K
     \<and> (body (packet w))[MESSAGE_ID K := RSP_MEMORY K] ! MEM_TYPE K = MTYPE_SIGN_JTAG K"

definition canonical_offset :: "defs \<Rightarrow> world \<Rightarrow> u16" where
  "canonical_offset K w = (if bit (UPDI_NVMCTRL w) (UPDI_GEN5_bp K) then 0x1080 else 0x1100)"

text \<open>
  Every call of \<open>write_fuse\<close> issues one block store and no other call of that kind, so
  the block stores in a trace count the rounds of the fuse loop.
\<close>

fun is_sts8 :: "call \<Rightarrow> bool" where
  "is_sts8 (STS8 a bs n) = True"
| "is_sts8 c = False"

definition fuse_rounds :: "call list \<Rightarrow> nat" where
  "fuse_rounds tr = length (filter is_sts8 tr)"

subsection \<open>A sample configuration\<close>

text \<open>
  Sample values for the header constants (register addresses and opcodes as in the AVR
  data sheets, response codes and packet offsets as in the JTAGICE mkII protocol, the
  bit positions of the flags chosen freely), sample targets and a sample state; the
  closed theorems below are evaluated on them.
\<close>

definition K0 :: defs where
  "K0 = \<lparr>NVMCTRL_REG_CTRLA = 0x1000, NVMCTRL_REG_STATUS = 0x1002, NVMCTRL_REG_DATA = 0x1006,
     NVMCTRL_V3_REG_STATUS = 0x1006,
     NVM_CMD_NOCMD = 0, NVM_CMD_WFU = 7, NVM_CMD_PBC = 4, NVM_CMD_ERWP = 3,
     NVM_V2_CMD_NOCMD = 0, NVM_V2_CMD_FLPER = 8, NVM_V2_CMD_FLWR = 2, NVM_V2_CMD_EEERWR = 0x13,
     NVM_V3_CMD_FLPER = 8, NVM_V3_CMD_FLPBCLR = 0x0F, NVM_V3_CMD_FLPW = 4,
     NVM_V3_CMD_EEPBCLR = 0x1F, NVM_V3_CMD_EEPERW = 0x15,
     UPDI_PROG_bp = 3, UPDI_INFO_bp = 2, UPDI_ERFM_bp = 4,
     UPDI_GEN2_bp = 2, UPDI_GEN3_bp = 3, UPDI_GEN5_bp = 5,
     RSP_OK = 0x80, RSP_MEMORY = 0x82, RSP_ILLEGAL_MEMORY_RANGE = 0xA5,
     RSP_ILLEGAL_MEMORY_TYPE = 0xA4, RSP_NO_TARGET_POWER = 0xAB,
     MTYPE_SIGN_JTAG = 0xB4,
     MESSAGE_ID = 0, RSP_DATA = 1, MEM_TYPE = 1, DATA_LENGTH = 2, DATA_ADDRESS = 6,
     DATA_START = 10,
     ENABLE_ADDFEATS_LOCK_SIG = True, ENABLE_ADDFEATS_DUMP_SIB = True\<rparr>"

text \<open>
  \<open>mk_world control nvmctrl b\<close>: nothing called yet, the two flag registers as given, a
  page size of 64, an identification block of spaces and the packet body \<open>b\<close>. With \<open>K0\<close>,
  \<open>control = 8\<close> is program mode and \<open>control = 4\<close> is info mode; \<open>nvmctrl = 0\<close> is
  generation 0, \<open>4\<close> generation 2 and \<open>8\<close> generation 3.
\<close>

definition mk_world :: "byte \<Rightarrow> byte \<Rightarrow> byte list \<Rightarrow> world" where
  "mk_world control nvmctrl b =
     \<lparr>trace = [], UPDI_LASTL = 0, UPDI_CONTROL = control, UPDI_NVMCTRL = nvmctrl, response = 0,
      updi_desc = \<lparr>flash_page_size = 64, sib = replicate 32 0x20, signature = [0, 0, 0],
                   nvm_signature_offset = 0\<rparr>,
      packet = \<lparr>size_word0 = 0, body = b\<rparr>\<rparr>"

text \<open>
  \<open>T_idle\<close>: every register reads 0, every store is acknowledged, every block load
  delivers three bytes. \<open>T_reads v\<close>: the same, but every register reads \<open>v\<close>.
  \<open>T_latched v\<close>: the control register at 0x1000 reads the byte stored to it last,
  and \<open>v\<close> before the first store; every other register reads 0.
  \<open>T_busy_once\<close>: the first read of a session finds the controller busy.
  \<open>T_sig_once\<close>: the first block load of a session succeeds, every later one fails.
  \<open>T_busy\<close>: every register reads 1, so the controller is busy for ever.
  \<open>T_nack\<close>: no store is acknowledged and no block load succeeds.
\<close>

definition T_idle :: target where
  "T_idle = \<lparr>t_ld8 = (\<lambda>tr a. 0), t_store = (\<lambda>tr c. True),
             t_load = (\<lambda>tr c. (True, [0x1E, 0x93, 0x22]))\<rparr>"

definition T_reads :: "byte \<Rightarrow> target" where
  "T_reads v = \<lparr>t_ld8 = (\<lambda>tr a. v), t_store = (\<lambda>tr c. True),
             t_load = (\<lambda>tr c. (True, [0x1E, 0x93, 0x22]))\<rparr>"

fun last_ctrla :: "byte \<Rightarrow> call list \<Rightarrow> byte" where
  "last_ctrla v [] = v"
| "last_ctrla v (ST8 a x # tr) = last_ctrla (if a = 0x1000 then x else v) tr"
| "last_ctrla v (c # tr) = last_ctrla v tr"

definition T_latched :: "byte \<Rightarrow> target" where
  "T_latched v = \<lparr>t_ld8 = (\<lambda>tr a. if a = 0x1000 then last_ctrla v tr else 0),
             t_store = (\<lambda>tr c. True), t_load = (\<lambda>tr c. (True, [0x1E, 0x93, 0x22]))\<rparr>"


definition T_sig_once :: target where
  "T_sig_once = \<lparr>t_ld8 = (\<lambda>tr a. 0), t_store = (\<lambda>tr c. True),
       t_load = (\<lambda>tr c. if tr = [] then (True, [0x1E, 0x93, 0x22]) else (False, []))\<rparr>"

definition T_busy :: target where
  "T_busy = \<lparr>t_ld8 = (\<lambda>tr a. 1), t_store = (\<lambda>tr c. True),
             t_load = (\<lambda>tr c. (True, [0x1E, 0x93, 0x22]))\<rparr>"


section \<open>Verification\<close>

subsection \<open>Basic facts\<close>

lemmas MTYPE_defs =
  MTYPE_SRAM_def MTYPE_EEPROM_def MTYPE_FLASH_PAGE_def MTYPE_EEPROM_PAGE_def
  MTYPE_FUSE_BITS_def MTYPE_LOCK_BITS_def MTYPE_XMEGA_APP_FLASH_def
  MTYPE_XMEGA_BOOT_FLASH_def MTYPE_XMEGA_EEPROM_def MTYPE_XMEGA_USERSIG_def

lemma trace_issue [simp]: "trace (issue c w) = trace w @ [c]"
  by (simp add: issue_def)

lemma set_response_simps [simp]:
  "UPDI_CONTROL (set_response c w) = UPDI_CONTROL w"
  "UPDI_NVMCTRL (set_response c w) = UPDI_NVMCTRL w"
  "trace (set_response c w) = trace w"
  "updi_desc (set_response c w) = updi_desc w"
  "packet (set_response c w) = packet w"
  by (simp_all add: set_response_def)

lemma fst_ld8: "fst (ld8 T reg w) = t_ld8 T (trace w) reg"
  by (simp add: ld8_def Let_def)

lemma st8_eq: "st8 T a v w = (t_store T (trace w) (ST8 a v), issue (ST8 a v) w)"
  by (simp add: st8_def store_call_def)

lemma nvm_ctrl_eq:
  "nvm_ctrl K T c w = (t_store T (trace w) (ST8 (NVMCTRL_REG_CTRLA K) c),
                       issue (ST8 (NVMCTRL_REG_CTRLA K) c) w)"
  by (simp add: nvm_ctrl_def st8_eq)

lemma load_sts8rsd_eq: "load_sts8rsd T a d n w = issue (flash_load a d n) w"
  by (simp add: load_sts8rsd_def flash_load_def st8_def sts8rsd_def store_call_def)

lemma load_v2_eq: "load_v2 T a d n w = issue (flash_load_v2 a d n) w"
  by (simp add: load_v2_def flash_load_v2_def st8_def sts8rsd_def sts16rsd_def store_call_def)

lemma unat_pred_Suc: "(n::u16) \<noteq> 0 \<Longrightarrow> unat (n - 1) + 1 = unat n"
  by (simp add: unat_minus_one unat_gt_0)

lemma length_poke [simp]: "length (poke p bs buf) = length buf"
  by (induction bs arbitrary: p buf) auto

lemma nth_poke:
  "j < length buf \<Longrightarrow>
   poke p bs buf ! j = (if p \<le> j \<and> j < p + length bs then bs ! (j - p) else buf ! j)"
proof (induction bs arbitrary: p buf)
  case Nil
  then show ?case by (auto dest: leD)
next
  case (Cons b bs)
  then show ?case
    by (cases "j = p") (auto simp: nth_Cons' Suc_le_eq)
qed

lemma three_updates: "length xs = 3 \<Longrightarrow> xs[0 := a, Suc 0 := b, 2 := c] = [a, b, c]"
  by (cases xs; cases "tl xs"; cases "tl (tl xs)") auto

subsection \<open>The status waiter\<close>

text \<open>
  A wait returns exactly when the target delivers an idle status at some poll, after
  busy ones only; it has then issued those polls and nothing else, and returns the idle
  status it read last.
\<close>

lemma nvm_wait_reg_Some:
  assumes "nvm_wait_reg T reg w = Some y"
  shows "\<exists>k. y = (status_at T reg (trace w) k, polled reg k (status_at T reg (trace w) k) w)
            \<and> status_at T reg (trace w) k AND 3 = 0
            \<and> (\<forall>j<k. status_at T reg (trace w) j AND 3 \<noteq> 0)"
  using assms
proof (induction T reg w y rule: nvm_wait_reg.raw_induct [rotated 1, consumes 1])
  case (1 wait T reg w y)
  show ?case
  proof (cases "t_ld8 T (trace w) reg AND 3 = 0")
    case True
    with 1(2) have "y = (status_at T reg (trace w) 0, polled reg 0 (status_at T reg (trace w) 0) w)"
      by (auto simp: ld8_def issue_def status_at_def polled_def poll_calls_def Let_def)
    with True show ?thesis
      by (intro exI[of _ 0]) (simp add: status_at_def)
  next
    case False
    let ?w1 = "delay_50us (snd (ld8 T reg w))"
    from False 1(2) have "wait T reg ?w1 = Some y"
      by (auto simp: ld8_def Let_def)
    from 1(1)[OF this] obtain k where k:
      "y = (status_at T reg (trace ?w1) k, polled reg k (status_at T reg (trace ?w1) k) ?w1)"
      "status_at T reg (trace ?w1) k AND 3 = 0"
      "\<forall>j<k. status_at T reg (trace ?w1) j AND 3 \<noteq> 0"
      by blast
    have tr: "trace ?w1 = trace w @ [LD8 reg, DELAY_50US]"
      by (simp add: ld8_def delay_50us_def issue_def Let_def)
    have st: "status_at T reg (trace ?w1) j = status_at T reg (trace w) (Suc j)" for j
      by (simp add: status_at_def tr)
    have pl: "polled reg k s ?w1 = polled reg (Suc k) s w" for s
      by (simp add: polled_def poll_calls_def ld8_def delay_50us_def issue_def Let_def)
    have "\<forall>j<Suc k. status_at T reg (trace w) j AND 3 \<noteq> 0"
    proof (intro allI impI)
      fix j assume "j < Suc k"
      then show "status_at T reg (trace w) j AND 3 \<noteq> 0"
        using False k(3) st by (cases j) (auto simp: status_at_def)
    qed
    with k st pl show ?thesis
      by (intro exI[of _ "Suc k"]) simp
  qed
qed

lemma nvm_wait_reg_returns:
  "status_at T reg (trace w) k AND 3 = 0 \<Longrightarrow>
   (\<forall>j<k. status_at T reg (trace w) j AND 3 \<noteq> 0) \<Longrightarrow>
   nvm_wait_reg T reg w
     = Some (status_at T reg (trace w) k, polled reg k (status_at T reg (trace w) k) w)"
proof (induction k arbitrary: w)
  case 0
  then show ?case
    by (subst nvm_wait_reg.simps)
       (simp add: ld8_def issue_def status_at_def polled_def poll_calls_def Let_def)
next
  case (Suc k)
  let ?w1 = "delay_50us (snd (ld8 T reg w))"
  have tr: "trace ?w1 = trace w @ [LD8 reg, DELAY_50US]"
    by (simp add: ld8_def delay_50us_def issue_def Let_def)
  have st: "status_at T reg (trace ?w1) j = status_at T reg (trace w) (Suc j)" for j
    by (simp add: status_at_def tr)
  have pl: "polled reg k s ?w1 = polled reg (Suc k) s w" for s
    by (simp add: polled_def poll_calls_def ld8_def delay_50us_def issue_def Let_def)
  from Suc.prems have busy0: "t_ld8 T (trace w) reg AND 3 \<noteq> 0"
    by (auto simp: status_at_def dest: spec[of _ 0])
  have "nvm_wait_reg T reg ?w1
     = Some (status_at T reg (trace ?w1) k, polled reg k (status_at T reg (trace ?w1) k) ?w1)"
    using Suc.prems by (intro Suc.IH) (auto simp: st)
  then show ?case
    using busy0 by (subst nvm_wait_reg.simps) (simp add: case_prod_beta fst_ld8 st pl)
qed

lemma polled_simps [simp]:
  "trace (polled reg k s w) = trace w @ poll_calls reg k"
  "UPDI_LASTL (polled reg k s w) = s"
  by (simp_all add: polled_def)

lemma nvm_wait_Some:
  assumes "nvm_wait K T w = Some (s, w')"
  shows "\<exists>k. w' = polled (NVMCTRL_REG_STATUS K) k s w
            \<and> s = status_at T (NVMCTRL_REG_STATUS K) (trace w) k \<and> s AND 3 = 0"
  using nvm_wait_reg_Some [of T "NVMCTRL_REG_STATUS K" w "(s, w')"] assms
  by (auto simp: nvm_wait_def)

lemma nvm_wait_v3_Some:
  assumes "nvm_wait_v3 K T w = Some (s, w')"
  shows "\<exists>k. w' = polled (NVMCTRL_V3_REG_STATUS K) k s w
            \<and> s = status_at T (NVMCTRL_V3_REG_STATUS K) (trace w) k \<and> s AND 3 = 0"
  using nvm_wait_reg_Some [of T "NVMCTRL_V3_REG_STATUS K" w "(s, w')"] assms
  by (auto simp: nvm_wait_v3_def)

lemma set_busy_polls: "set (busy_polls reg k) \<subseteq> {LD8 reg, DELAY_50US}"
  by (induction k) auto

lemma set_poll_calls: "set (poll_calls reg k) \<subseteq> {LD8 reg, DELAY_50US}"
  using set_busy_polls [of reg k] by (auto simp: poll_calls_def)

subsection \<open>The command arbiter\<close>

text \<open>
  Claim C8. \<open>nvm_ctrl_change\<close> reads the control register once. If it reads the requested
  opcode, the call returns true and issues no store at all (so a request for NOCMD on a
  register that reads NOCMD writes nothing). Otherwise it stores NOCMD first; when that
  store fails it returns false; when the requested opcode is NOCMD itself it is done and
  returns true; else it stores the requested opcode and returns the result of that store.
  It returns false only when one of its two stores failed.
\<close>

theorem nvm_ctrl_change_sequence:
  assumes "nvm_ctrl_change K T nvmcmd w = (r, w')"
  shows "(let ctrla = NVMCTRL_REG_CTRLA K; nocmd = NVM_CMD_NOCMD K;
              v = t_ld8 T (trace w) ctrla;
              tr1 = trace w @ [LD8 ctrla];
              ok1 = t_store T tr1 (ST8 ctrla nocmd);
              ok2 = t_store T (tr1 @ [ST8 ctrla nocmd]) (ST8 ctrla nvmcmd)
          in (v = nvmcmd \<longrightarrow> r \<and> trace w' = tr1)
           \<and> (v \<noteq> nvmcmd \<and> \<not> ok1 \<longrightarrow> \<not> r \<and> trace w' = tr1 @ [ST8 ctrla nocmd])
           \<and> (v \<noteq> nvmcmd \<and> ok1 \<and> nvmcmd = nocmd \<longrightarrow> r \<and> trace w' = tr1 @ [ST8 ctrla nocmd])
           \<and> (v \<noteq> nvmcmd \<and> ok1 \<and> nvmcmd \<noteq> nocmd \<longrightarrow>
                 r = ok2 \<and> trace w' = tr1 @ [ST8 ctrla nocmd, ST8 ctrla nvmcmd])
           \<and> w' = w\<lparr>trace := trace w', UPDI_LASTL := v\<rparr>)"
  using assms
  by (auto simp: nvm_ctrl_change_def nvm_ctrl_def st8_def store_call_def ld8_def issue_def
      Let_def split: if_splits)

text \<open>
  The three cases on sample targets: NOCMD requested and read, NOCMD requested on a
  register that reads 8, and opcode 8 requested on a register that reads 0.
\<close>

theorem nvm_ctrl_change_sequence_witness:
  "nvm_ctrl_change K0 T_idle 0 (mk_world 0 0 []) = (True, (mk_world 0 0 [])\<lparr>trace := [LD8 0x1000]\<rparr>)
   \<and> nvm_ctrl_change K0 (T_reads 8) 0 (mk_world 0 0 [])
       = (True, (mk_world 0 0 [])\<lparr>trace := [LD8 0x1000, ST8 0x1000 0], UPDI_LASTL := 8\<rparr>)
   \<and> nvm_ctrl_change K0 T_idle 8 (mk_world 0 0 [])
       = (True, (mk_world 0 0 [])\<lparr>trace := [LD8 0x1000, ST8 0x1000 0, ST8 0x1000 8]\<rparr>)"
  using nvm_ctrl_change_sequence [of K0 T_idle 0 "mk_world 0 0 []"]
    nvm_ctrl_change_sequence [of K0 "T_reads 8" 0 "mk_world 0 0 []"]
    nvm_ctrl_change_sequence [of K0 T_idle 8 "mk_world 0 0 []"]
  by (simp add: nvm_ctrl_change_def nvm_ctrl_def st8_def store_call_def ld8_def issue_def
      Let_def K0_def T_idle_def T_reads_def mk_world_def)

lemma set_change_stores:
  "set (change_stores K v c)
     \<subseteq> {ST8 (NVMCTRL_REG_CTRLA K) (NVM_CMD_NOCMD K), ST8 (NVMCTRL_REG_CTRLA K) c}"
  by (auto simp: change_stores_def)

lemma nvm_ctrl_change_trace:
  assumes "nvm_ctrl_change K T c w = (r, w')"
  shows "\<exists>s. trace w' = trace w @ LD8 (NVMCTRL_REG_CTRLA K) # s
            \<and> prefix s (change_stores K (t_ld8 T (trace w) (NVMCTRL_REG_CTRLA K)) c)
            \<and> (r \<longrightarrow> s = change_stores K (t_ld8 T (trace w) (NVMCTRL_REG_CTRLA K)) c)"
  using assms
  by (auto simp: nvm_ctrl_change_def nvm_ctrl_eq ld8_def issue_def change_stores_def Let_def
      split: if_splits)

lemma nvm_ctrl_v2_trace:
  assumes "nvm_ctrl_v2 K T c w = Some (r, w')"
  shows "\<exists>k s. trace w' = trace w @ poll_calls (NVMCTRL_REG_STATUS K) k
                    @ LD8 (NVMCTRL_REG_CTRLA K) # s
            \<and> prefix s (change_stores K
                 (t_ld8 T (trace w @ poll_calls (NVMCTRL_REG_STATUS K) k) (NVMCTRL_REG_CTRLA K)) c)
            \<and> (r \<longrightarrow> s = change_stores K
                 (t_ld8 T (trace w @ poll_calls (NVMCTRL_REG_STATUS K) k) (NVMCTRL_REG_CTRLA K)) c)"
proof -
  from assms obtain s0 w1 where w1: "nvm_wait K T w = Some (s0, w1)"
    and ch: "nvm_ctrl_change K T c w1 = (r, w')"
    by (auto simp: nvm_ctrl_v2_def split: Option.bind_splits)
  from nvm_wait_Some [OF w1] obtain k where
    "trace w1 = trace w @ poll_calls (NVMCTRL_REG_STATUS K) k" by auto
  with nvm_ctrl_change_trace [OF ch] show ?thesis
    by (intro exI[of _ k]) auto
qed

lemma nvm_ctrl_v2_set:
  assumes "nvm_ctrl_v2 K T c w = Some (r, w')"
  shows "\<exists>new. trace w' = trace w @ new
           \<and> set new \<subseteq> {LD8 (NVMCTRL_REG_STATUS K), DELAY_50US, LD8 (NVMCTRL_REG_CTRLA K),
                ST8 (NVMCTRL_REG_CTRLA K) (NVM_CMD_NOCMD K), ST8 (NVMCTRL_REG_CTRLA K) c}"
proof -
  from nvm_ctrl_v2_trace [OF assms] obtain k s v where
    tr: "trace w' = trace w @ poll_calls (NVMCTRL_REG_STATUS K) k @ LD8 (NVMCTRL_REG_CTRLA K) # s"
    and pre: "prefix s (change_stores K v c)"
    by blast
  from pre have "set s \<subseteq> set (change_stores K v c)"
    by (rule set_mono_prefix)
  with set_change_stores [of K v c] set_poll_calls [of "NVMCTRL_REG_STATUS K" k] tr
  show ?thesis
    by (intro exI[of _ "poll_calls (NVMCTRL_REG_STATUS K) k @ LD8 (NVMCTRL_REG_CTRLA K) # s"])
       auto
qed

subsection \<open>The fuse writer\<close>

lemma fuse_rounds_simps [simp]:
  "fuse_rounds [] = 0"
  "fuse_rounds (xs @ ys) = fuse_rounds xs + fuse_rounds ys"
  "fuse_rounds (c # xs) = (if is_sts8 c then 1 else 0) + fuse_rounds xs"
  by (simp_all add: fuse_rounds_def)

lemma fuse_rounds_busy_polls [simp]: "fuse_rounds (busy_polls reg k) = 0"
  by (induction k) simp_all

lemma fuse_rounds_poll_calls [simp]: "fuse_rounds (poll_calls reg k) = 0"
  by (simp add: poll_calls_def)




text \<open>
  The call does return once the target reports an idle status in each of the two
  waits.
\<close>

lemma write_fuse_returns:
  assumes "status_at T (NVMCTRL_REG_STATUS K) (trace w) k1 AND 3 = 0"
    and "\<forall>j<k1. status_at T (NVMCTRL_REG_STATUS K) (trace w) j AND 3 \<noteq> 0"
    and "status_at T (NVMCTRL_REG_STATUS K)
           (trace w @ poll_calls (NVMCTRL_REG_STATUS K) k1
              @ [STS8 (NVMCTRL_REG_DATA K) [d, 0, ucast a, ucast (drop_bit 8 a)] 4,
                 ST8 (NVMCTRL_REG_CTRLA K) (NVM_CMD_WFU K)]) k2 AND 3 = 0"
    and "\<forall>j<k2. status_at T (NVMCTRL_REG_STATUS K)
           (trace w @ poll_calls (NVMCTRL_REG_STATUS K) k1
              @ [STS8 (NVMCTRL_REG_DATA K) [d, 0, ucast a, ucast (drop_bit 8 a)] 4,
                 ST8 (NVMCTRL_REG_CTRLA K) (NVM_CMD_WFU K)]) j AND 3 \<noteq> 0"
  shows "\<exists>y. write_fuse K T a d w = Some y"
proof -
  let ?st = "NVMCTRL_REG_STATUS K"
  let ?blk = "STS8 (NVMCTRL_REG_DATA K) [d, 0, ucast a, ucast (drop_bit 8 a)] 4"
  let ?wfu = "ST8 (NVMCTRL_REG_CTRLA K) (NVM_CMD_WFU K)"
  let ?w1 = "polled ?st k1 (status_at T ?st (trace w) k1) w"
  let ?w3 = "issue ?wfu (issue ?blk ?w1)"
  have w1: "nvm_wait K T w = Some (status_at T ?st (trace w) k1, ?w1)"
    unfolding nvm_wait_def by (rule nvm_wait_reg_returns [OF assms(1,2)])
  have tr3: "trace ?w3 = trace w @ poll_calls ?st k1 @ [?blk, ?wfu]"
    by simp
  have "nvm_wait K T ?w3
          = Some (status_at T ?st (trace ?w3) k2, polled ?st k2 (status_at T ?st (trace ?w3) k2) ?w3)"
    unfolding nvm_wait_def
    by (rule nvm_wait_reg_returns) (use assms(3,4) in \<open>simp_all only: tr3\<close>)
  with w1 show ?thesis
    by (auto simp: write_fuse_def sts8_def store_call_def nvm_ctrl_eq fuse_packet_def)
qed

subsection \<open>The ceilings of the EEPROM writers\<close>

text \<open>
  Claim C3. Each EEPROM writer, called with a byte count above its ceiling (8 for
  version 3, 2 for version 2, 64 for version 0), returns true and changes nothing but
  the response code, which becomes ILLEGAL_MEMORY_RANGE: the trace is untouched, so no
  transport call is made, and the result is never false.
\<close>

theorem eeprom_writers_over_ceiling:
  "(8 < n \<longrightarrow> write_eeprom_v3 K T start_addr d n w
               = (True, w\<lparr>response := RSP_ILLEGAL_MEMORY_RANGE K\<rparr>))
   \<and> (2 < n \<longrightarrow> write_eeprom_v2 K T start_addr d n w
               = Some (True, w\<lparr>response := RSP_ILLEGAL_MEMORY_RANGE K\<rparr>))
   \<and> (64 < n \<longrightarrow> write_eeprom_v0 K T start_addr d n w
               = Some (True, w\<lparr>response := RSP_ILLEGAL_MEMORY_RANGE K\<rparr>))"
  by (simp add: write_eeprom_v3_def write_eeprom_v2_def write_eeprom_v0_def set_response_def)

text \<open>
  One byte over each ceiling.
\<close>

theorem eeprom_writers_over_ceiling_witness:
  "(8::u16) < 9 \<and> (2::u16) < 3 \<and> (64::u16) < 65
   \<and> write_eeprom_v3 K0 T_idle 0x1400 [] 9 (mk_world 8 8 [])
       = (True, (mk_world 8 8 [])\<lparr>response := 0xA5\<rparr>)
   \<and> write_eeprom_v2 K0 T_idle 0x1400 [] 3 (mk_world 8 4 [])
       = Some (True, (mk_world 8 4 [])\<lparr>response := 0xA5\<rparr>)
   \<and> write_eeprom_v0 K0 T_idle 0x1400 [] 65 (mk_world 8 0 [])
       = Some (True, (mk_world 8 0 [])\<lparr>response := 0xA5\<rparr>)
   \<and> trace ((mk_world 8 4 [])\<lparr>response := 0xA5\<rparr>) = []"
  using eeprom_writers_over_ceiling [where n = 9 and K = K0 and T = T_idle
      and start_addr = "0x1400" and d = "[]" and w = "mk_world 8 8 []"]
    eeprom_writers_over_ceiling [where n = 3 and K = K0 and T = T_idle
      and start_addr = "0x1400" and d = "[]" and w = "mk_world 8 4 []"]
    eeprom_writers_over_ceiling [where n = 65 and K = K0 and T = T_idle
      and start_addr = "0x1400" and d = "[]" and w = "mk_world 8 0 []"]
  by (simp add: K0_def mk_world_def)

subsection \<open>The flash writers\<close>

lemma write_flash_v0_bound:
  assumes "write_flash_v0 K T a d n True w = Some (r, w')"
  shows "\<exists>k rest. trace w' = trace w @ poll_calls (NVMCTRL_REG_STATUS K) k
                      @ ST8 (NVMCTRL_REG_CTRLA K) (NVM_CMD_PBC K) # rest
           \<and> (rest = [] \<or> (\<exists>k2. rest = poll_calls (NVMCTRL_REG_STATUS K) k2
                  @ [flash_load a d n, ST8 (NVMCTRL_REG_CTRLA K) (NVM_CMD_ERWP K)]))"
  using assms
  apply (auto simp: write_flash_v0_def nvm_ctrl_eq load_sts8rsd_eq
      split: Option.bind_splits if_splits dest!: nvm_wait_Some)
  apply ((fastforce | blast)+)?
  done

lemma write_flash_v0_unbound:
  assumes "write_flash_v0 K T a d n False w = Some (r, w')"
  shows "\<exists>k. trace w' = trace w @ poll_calls (NVMCTRL_REG_STATUS K) k
                  @ [flash_load a d n, ST8 (NVMCTRL_REG_CTRLA K) (NVM_CMD_ERWP K)]"
  using assms
  apply (auto simp: write_flash_v0_def nvm_ctrl_eq load_sts8rsd_eq
      split: Option.bind_splits if_splits dest!: nvm_wait_Some)
  apply ((fastforce | blast)+)?
  done

lemma write_flash_v2_bound:
  assumes "write_flash_v2 K T a d n True w = Some (r, w')"
  shows "\<exists>k s rest.
           trace w' = trace w @ poll_calls (NVMCTRL_REG_STATUS K) k
                        @ LD8 (NVMCTRL_REG_CTRLA K) # s @ rest
           \<and> prefix s (change_stores K
                 (t_ld8 T (trace w @ poll_calls (NVMCTRL_REG_STATUS K) k) (NVMCTRL_REG_CTRLA K))
                 (NVM_V2_CMD_FLPER K))
           \<and> (rest = [] \<or>
               (\<exists>rest'. rest = ST8 a 0xFF # rest'
                  \<and> s = change_stores K
                     (t_ld8 T (trace w @ poll_calls (NVMCTRL_REG_STATUS K) k) (NVMCTRL_REG_CTRLA K))
                     (NVM_V2_CMD_FLPER K)
                  \<and> (r \<longrightarrow> flash_load_v2 a d n \<in> set rest')))"
proof -
  from assms obtain ok0 w0 where
    erase: "nvm_ctrl_v2 K T (NVM_V2_CMD_FLPER K) w = Some (ok0, w0)"
    by (auto simp: write_flash_v2_def split: Option.bind_splits)
  let ?st = "NVMCTRL_REG_STATUS K" and ?c = "NVMCTRL_REG_CTRLA K"
  from nvm_ctrl_v2_trace [OF erase] obtain k s where
    tr0: "trace w0 = trace w @ poll_calls ?st k @ LD8 ?c # s"
    and pre: "prefix s (change_stores K (t_ld8 T (trace w @ poll_calls ?st k) ?c) (NVM_V2_CMD_FLPER K))"
    and full: "ok0 \<longrightarrow> s = change_stores K (t_ld8 T (trace w @ poll_calls ?st k) ?c) (NVM_V2_CMD_FLPER K)"
    by blast
  show ?thesis
  proof (cases ok0)
    case False
    with assms erase have "w' = w0"
      by (auto simp: write_flash_v2_def)
    with tr0 pre show ?thesis
      by (intro exI[of _ k] exI[of _ s] exI[of _ "[]"]) simp
  next
    case True
    let ?w1 = "issue (ST8 a 0xFF) w0"
    show ?thesis
    proof (cases "t_store T (trace w0) (ST8 a 0xFF)")
      case False
      with assms erase True have "w' = ?w1" "\<not> r"
        by (auto simp: write_flash_v2_def st8_eq)
      with tr0 pre full True show ?thesis
        by (intro exI[of _ k] exI[of _ s] exI[of _ "[ST8 a 0xFF]"]) simp
    next
      case trig: True
      from assms erase True trig obtain ok3 w3 where
        arm: "nvm_ctrl_v2 K T (NVM_V2_CMD_FLWR K) ?w1 = Some (ok3, w3)"
        and fin: "if \<not> ok3 then r = False \<and> w' = w3
                  else nvm_ctrl_v2 K T (NVM_V2_CMD_NOCMD K) (load_v2 T a d n w3) = Some (r, w')"
        by (auto simp: write_flash_v2_def st8_eq split: Option.bind_splits if_splits)
      from nvm_ctrl_v2_set [OF arm] obtain new3 where
        tr3: "trace w3 = trace ?w1 @ new3" by blast
      show ?thesis
      proof (cases ok3)
        case False
        with fin have "\<not> r" "w' = w3" by auto
        with tr0 tr3 pre full True show ?thesis
          by (intro exI[of _ k] exI[of _ s] exI[of _ "ST8 a 0xFF # new3"]) simp
      next
        case ok3: True
        with fin have "nvm_ctrl_v2 K T (NVM_V2_CMD_NOCMD K) (load_v2 T a d n w3) = Some (r, w')"
          by simp
        from nvm_ctrl_v2_set [OF this] obtain new4 where
          "trace w' = trace (load_v2 T a d n w3) @ new4" by blast
        then have "trace w' = trace w3 @ flash_load_v2 a d n # new4"
          by (simp add: load_v2_eq)
        with tr0 tr3 pre full True show ?thesis
          by (intro exI[of _ k] exI[of _ s]
                exI[of _ "ST8 a 0xFF # new3 @ flash_load_v2 a d n # new4"]) simp
      qed
    qed
  qed
qed

lemma write_flash_v2_unbound:
  assumes "write_flash_v2 K T a d n False w = Some (r, w')"
  shows "\<exists>new. trace w' = trace w @ new
           \<and> set new \<subseteq> {LD8 (NVMCTRL_REG_STATUS K), DELAY_50US, LD8 (NVMCTRL_REG_CTRLA K),
                ST8 (NVMCTRL_REG_CTRLA K) (NVM_CMD_NOCMD K),
                ST8 (NVMCTRL_REG_CTRLA K) (NVM_V2_CMD_FLWR K),
                ST8 (NVMCTRL_REG_CTRLA K) (NVM_V2_CMD_NOCMD K),
                flash_load_v2 a d n}"
proof -
  from assms obtain ok3 w3 where
    arm: "nvm_ctrl_v2 K T (NVM_V2_CMD_FLWR K) w = Some (ok3, w3)"
    and fin: "if \<not> ok3 then w' = w3
              else nvm_ctrl_v2 K T (NVM_V2_CMD_NOCMD K) (load_v2 T a d n w3) = Some (r, w')"
    by (auto simp: write_flash_v2_def split: Option.bind_splits if_splits)
  from nvm_ctrl_v2_set [OF arm] obtain new3 where
    tr3: "trace w3 = trace w @ new3"
    "set new3 \<subseteq> {LD8 (NVMCTRL_REG_STATUS K), DELAY_50US, LD8 (NVMCTRL_REG_CTRLA K),
                ST8 (NVMCTRL_REG_CTRLA K) (NVM_CMD_NOCMD K),
                ST8 (NVMCTRL_REG_CTRLA K) (NVM_V2_CMD_FLWR K)}" by blast
  show ?thesis
  proof (cases ok3)
    case False
    with fin tr3 show ?thesis
      by (intro exI[of _ new3]) auto
  next
    case True
    with fin have "nvm_ctrl_v2 K T (NVM_V2_CMD_NOCMD K) (load_v2 T a d n w3) = Some (r, w')"
      by simp
    from nvm_ctrl_v2_set [OF this] obtain new4 where new4:
      "trace w' = trace (load_v2 T a d n w3) @ new4"
      "set new4 \<subseteq> {LD8 (NVMCTRL_REG_STATUS K), DELAY_50US, LD8 (NVMCTRL_REG_CTRLA K),
                ST8 (NVMCTRL_REG_CTRLA K) (NVM_CMD_NOCMD K),
                ST8 (NVMCTRL_REG_CTRLA K) (NVM_V2_CMD_NOCMD K)}" by blast
    from new4(1) tr3(1) have "trace w' = trace w @ (new3 @ flash_load_v2 a d n # new4)"
      by (simp add: load_v2_eq)
    with tr3(2) new4(2) show ?thesis
      by (intro exI[of _ "new3 @ flash_load_v2 a d n # new4"]) auto
  qed
qed

lemma write_flash_v3_bound:
  assumes "write_flash_v3 K T a d n True w = Some (r, w')"
  shows "\<exists>k rest. trace w' = trace w @ poll_calls (NVMCTRL_V3_REG_STATUS K) k
                      @ ST8 a 0xFF # rest
           \<and> (rest = [] \<or> rest = [ST8 (NVMCTRL_REG_CTRLA K) (NVM_V3_CMD_FLPER K)]
               \<or> (\<exists>k2. rest = ST8 (NVMCTRL_REG_CTRLA K) (NVM_V3_CMD_FLPER K)
                    # poll_calls (NVMCTRL_V3_REG_STATUS K) k2
                    @ [flash_load a d n, ST8 (NVMCTRL_REG_CTRLA K) (NVM_V3_CMD_FLPW K)]))"
  using assms
  apply (auto simp: write_flash_v3_def nvm_ctrl_eq st8_eq load_sts8rsd_eq
      split: Option.bind_splits if_splits dest!: nvm_wait_v3_Some)
  apply ((fastforce | blast)+)?
  done

lemma write_flash_v3_unbound:
  assumes "write_flash_v3 K T a d n False w = Some (r, w')"
  shows "\<exists>k rest. trace w' = trace w @ poll_calls (NVMCTRL_V3_REG_STATUS K) k
                      @ ST8 (NVMCTRL_REG_CTRLA K) (NVM_V3_CMD_FLPBCLR K) # rest
           \<and> (rest = [] \<or> (\<exists>k2. rest = poll_calls (NVMCTRL_V3_REG_STATUS K) k2
                    @ [flash_load a d n, ST8 (NVMCTRL_REG_CTRLA K) (NVM_V3_CMD_FLPW K)]))"
  using assms
  apply (auto simp: write_flash_v3_def nvm_ctrl_eq st8_eq load_sts8rsd_eq
      split: Option.bind_splits if_splits dest!: nvm_wait_v3_Some)
  apply ((fastforce | blast)+)?
  done

text \<open>
  Claim C1, as amended. With \<open>is_bound\<close> true, the calls of a returning run start
  with the erase sub-sequence, preceded by status polls only, and nothing follows unless
  it was completed: version 0 stores PBC; version 3 stores 0xFF to the start address and
  then FLPER; version 2 requests FLPER through \<open>nvm_ctrl_change\<close> (a read of the control
  register and the stores \<open>change_stores\<close>, which are none when the register already reads
  FLPER) and then stores 0xFF to the start address. The data load comes after it. With
  \<open>is_bound\<close> false, every call is a status poll, the data load or the commit command,
  and for version 2 the read of the control register and the stores for FLWR and NOCMD,
  for version 3 the buffer clear FLPBCLR: no PBC, no FLPER and no 0xFF trigger store.
\<close>

theorem flash_writers_erase_order:
  "(\<forall>r w'. write_flash_v0 K T a d n True w = Some (r, w') \<longrightarrow>
      (\<exists>k rest. trace w' = trace w @ poll_calls (NVMCTRL_REG_STATUS K) k
                      @ ST8 (NVMCTRL_REG_CTRLA K) (NVM_CMD_PBC K) # rest
           \<and> (rest = [] \<or> (\<exists>k2. rest = poll_calls (NVMCTRL_REG_STATUS K) k2
                  @ [flash_load a d n, ST8 (NVMCTRL_REG_CTRLA K) (NVM_CMD_ERWP K)]))))
   \<and> (\<forall>r w'. write_flash_v2 K T a d n True w = Some (r, w') \<longrightarrow>
      (\<exists>k s rest.
           trace w' = trace w @ poll_calls (NVMCTRL_REG_STATUS K) k
                        @ LD8 (NVMCTRL_REG_CTRLA K) # s @ rest
           \<and> prefix s (change_stores K
                 (t_ld8 T (trace w @ poll_calls (NVMCTRL_REG_STATUS K) k) (NVMCTRL_REG_CTRLA K))
                 (NVM_V2_CMD_FLPER K))
           \<and> (rest = [] \<or>
               (\<exists>rest'. rest = ST8 a 0xFF # rest'
                  \<and> s = change_stores K
                     (t_ld8 T (trace w @ poll_calls (NVMCTRL_REG_STATUS K) k) (NVMCTRL_REG_CTRLA K))
                     (NVM_V2_CMD_FLPER K)
                  \<and> (r \<longrightarrow> flash_load_v2 a d n \<in> set rest')))))
   \<and> (\<forall>r w'. write_flash_v3 K T a d n True w = Some (r, w') \<longrightarrow>
      (\<exists>k rest. trace w' = trace w @ poll_calls (NVMCTRL_V3_REG_STATUS K) k
                      @ ST8 a 0xFF # rest
           \<and> (rest = [] \<or> rest = [ST8 (NVMCTRL_REG_CTRLA K) (NVM_V3_CMD_FLPER K)]
               \<or> (\<exists>k2. rest = ST8 (NVMCTRL_REG_CTRLA K) (NVM_V3_CMD_FLPER K)
                    # poll_calls (NVMCTRL_V3_REG_STATUS K) k2
                    @ [flash_load a d n, ST8 (NVMCTRL_REG_CTRLA K) (NVM_V3_CMD_FLPW K)]))))
   \<and> (\<forall>r w'. write_flash_v0 K T a d n False w = Some (r, w') \<longrightarrow>
      (\<exists>new. trace w' = trace w @ new
           \<and> set new \<subseteq> {LD8 (NVMCTRL_REG_STATUS K), DELAY_50US, flash_load a d n,
                ST8 (NVMCTRL_REG_CTRLA K) (NVM_CMD_ERWP K)}))
   \<and> (\<forall>r w'. write_flash_v2 K T a d n False w = Some (r, w') \<longrightarrow>
      (\<exists>new. trace w' = trace w @ new
           \<and> set new \<subseteq> {LD8 (NVMCTRL_REG_STATUS K), DELAY_50US, LD8 (NVMCTRL_REG_CTRLA K),
                ST8 (NVMCTRL_REG_CTRLA K) (NVM_CMD_NOCMD K),
                ST8 (NVMCTRL_REG_CTRLA K) (NVM_V2_CMD_FLWR K),
                ST8 (NVMCTRL_REG_CTRLA K) (NVM_V2_CMD_NOCMD K),
                flash_load_v2 a d n}))
   \<and> (\<forall>r w'. write_flash_v3 K T a d n False w = Some (r, w') \<longrightarrow>
      (\<exists>new. trace w' = trace w @ new
           \<and> set new \<subseteq> {LD8 (NVMCTRL_V3_REG_STATUS K), DELAY_50US,
                ST8 (NVMCTRL_REG_CTRLA K) (NVM_V3_CMD_FLPBCLR K), flash_load a d n,
                ST8 (NVMCTRL_REG_CTRLA K) (NVM_V3_CMD_FLPW K)}))"
proof (intro conjI allI impI)
  fix r w' assume "write_flash_v0 K T a d n True w = Some (r, w')"
  then show "\<exists>k rest. trace w' = trace w @ poll_calls (NVMCTRL_REG_STATUS K) k
                      @ ST8 (NVMCTRL_REG_CTRLA K) (NVM_CMD_PBC K) # rest
           \<and> (rest = [] \<or> (\<exists>k2. rest = poll_calls (NVMCTRL_REG_STATUS K) k2
                  @ [flash_load a d n, ST8 (NVMCTRL_REG_CTRLA K) (NVM_CMD_ERWP K)]))"
    by (rule write_flash_v0_bound)
next
  fix r w' assume "write_flash_v2 K T a d n True w = Some (r, w')"
  then show "\<exists>k s rest.
           trace w' = trace w @ poll_calls (NVMCTRL_REG_STATUS K) k
                        @ LD8 (NVMCTRL_REG_CTRLA K) # s @ rest
           \<and> prefix s (change_stores K
                 (t_ld8 T (trace w @ poll_calls (NVMCTRL_REG_STATUS K) k) (NVMCTRL_REG_CTRLA K))
                 (NVM_V2_CMD_FLPER K))
           \<and> (rest = [] \<or>
               (\<exists>rest'. rest = ST8 a 0xFF # rest'
                  \<and> s = change_stores K
                     (t_ld8 T (trace w @ poll_calls (NVMCTRL_REG_STATUS K) k) (NVMCTRL_REG_CTRLA K))
                     (NVM_V2_CMD_FLPER K)
                  \<and> (r \<longrightarrow> flash_load_v2 a d n \<in> set rest')))"
    by (rule write_flash_v2_bound)
next
  fix r w' assume "write_flash_v3 K T a d n True w = Some (r, w')"
  then show "\<exists>k rest. trace w' = trace w @ poll_calls (NVMCTRL_V3_REG_STATUS K) k
                      @ ST8 a 0xFF # rest
           \<and> (rest = [] \<or> rest = [ST8 (NVMCTRL_REG_CTRLA K) (NVM_V3_CMD_FLPER K)]
               \<or> (\<exists>k2. rest = ST8 (NVMCTRL_REG_CTRLA K) (NVM_V3_CMD_FLPER K)
                    # poll_calls (NVMCTRL_V3_REG_STATUS K) k2
                    @ [flash_load a d n, ST8 (NVMCTRL_REG_CTRLA K) (NVM_V3_CMD_FLPW K)]))"
    by (rule write_flash_v3_bound)
next
  fix r w' assume "write_flash_v0 K T a d n False w = Some (r, w')"
  from write_flash_v0_unbound [OF this] obtain k where
    "trace w' = trace w @ poll_calls (NVMCTRL_REG_STATUS K) k
                  @ [flash_load a d n, ST8 (NVMCTRL_REG_CTRLA K) (NVM_CMD_ERWP K)]" by blast
  with set_poll_calls [of "NVMCTRL_REG_STATUS K" k]
  show "\<exists>new. trace w' = trace w @ new
           \<and> set new \<subseteq> {LD8 (NVMCTRL_REG_STATUS K), DELAY_50US, flash_load a d n,
                ST8 (NVMCTRL_REG_CTRLA K) (NVM_CMD_ERWP K)}"
    by (intro exI[of _ "poll_calls (NVMCTRL_REG_STATUS K) k
                  @ [flash_load a d n, ST8 (NVMCTRL_REG_CTRLA K) (NVM_CMD_ERWP K)]"]) auto
next
  fix r w' assume "write_flash_v2 K T a d n False w = Some (r, w')"
  then show "\<exists>new. trace w' = trace w @ new
           \<and> set new \<subseteq> {LD8 (NVMCTRL_REG_STATUS K), DELAY_50US, LD8 (NVMCTRL_REG_CTRLA K),
                ST8 (NVMCTRL_REG_CTRLA K) (NVM_CMD_NOCMD K),
                ST8 (NVMCTRL_REG_CTRLA K) (NVM_V2_CMD_FLWR K),
                ST8 (NVMCTRL_REG_CTRLA K) (NVM_V2_CMD_NOCMD K),
                flash_load_v2 a d n}"
    by (rule write_flash_v2_unbound)
next
  fix r w' assume "write_flash_v3 K T a d n False w = Some (r, w')"
  from write_flash_v3_unbound [OF this] obtain k rest where tr:
    "trace w' = trace w @ poll_calls (NVMCTRL_V3_REG_STATUS K) k
                      @ ST8 (NVMCTRL_REG_CTRLA K) (NVM_V3_CMD_FLPBCLR K) # rest"
    and rest: "rest = [] \<or> (\<exists>k2. rest = poll_calls (NVMCTRL_V3_REG_STATUS K) k2
                    @ [flash_load a d n, ST8 (NVMCTRL_REG_CTRLA K) (NVM_V3_CMD_FLPW K)])"
    by blast
  have "set rest \<subseteq> {LD8 (NVMCTRL_V3_REG_STATUS K), DELAY_50US,
                flash_load a d n, ST8 (NVMCTRL_REG_CTRLA K) (NVM_V3_CMD_FLPW K)}"
  proof (cases "rest = []")
    case True
    then show ?thesis by simp
  next
    case False
    with rest obtain k2 where "rest = poll_calls (NVMCTRL_V3_REG_STATUS K) k2
                    @ [flash_load a d n, ST8 (NVMCTRL_REG_CTRLA K) (NVM_V3_CMD_FLPW K)]"
      by blast
    with set_poll_calls [of "NVMCTRL_V3_REG_STATUS K" k2] show ?thesis by auto
  qed
  with tr set_poll_calls [of "NVMCTRL_V3_REG_STATUS K" k]
  show "\<exists>new. trace w' = trace w @ new
           \<and> set new \<subseteq> {LD8 (NVMCTRL_V3_REG_STATUS K), DELAY_50US,
                ST8 (NVMCTRL_REG_CTRLA K) (NVM_V3_CMD_FLPBCLR K), flash_load a d n,
                ST8 (NVMCTRL_REG_CTRLA K) (NVM_V3_CMD_FLPW K)}"
    by (intro exI[of _ "poll_calls (NVMCTRL_V3_REG_STATUS K) k
                      @ ST8 (NVMCTRL_REG_CTRLA K) (NVM_V3_CMD_FLPBCLR K) # rest"]) auto
qed

text \<open>
  The six runs on a target that is idle and acknowledges every store.
\<close>

lemmas flash_eval =
  write_flash_v0_def write_flash_v2_def write_flash_v3_def nvm_ctrl_v2_def nvm_ctrl_change_def
  nvm_wait_def nvm_wait_v3_def nvm_wait_reg.simps ld8_def delay_50us_def load_sts8rsd_def
  load_v2_def sts8rsd_def sts16rsd_def nvm_ctrl_def st8_def store_call_def issue_def Let_def
  K0_def mk_world_def

theorem flash_writers_erase_order_witness:
  "write_flash_v0 K0 T_idle 0x8000 [0x11, 0x22] 2 True (mk_world 8 0 [])
     = Some (True, (mk_world 8 0 [])\<lparr>trace :=
         [LD8 0x1002, ST8 0x1000 4, LD8 0x1002, STS8RSD 0x8000 [0x11, 0x22] 2, ST8 0x1000 3]\<rparr>)
   \<and> write_flash_v2 K0 T_idle 0x8000 [0x11, 0x22] 2 True (mk_world 8 0 [])
     = Some (True, (mk_world 8 0 [])\<lparr>trace :=
         [LD8 0x1002, LD8 0x1000, ST8 0x1000 0, ST8 0x1000 8, ST8 0x8000 0xFF,
          LD8 0x1002, LD8 0x1000, ST8 0x1000 0, ST8 0x1000 2,
          STS8RSD 0x8000 [0x11, 0x22] 2, LD8 0x1002, LD8 0x1000]\<rparr>)
   \<and> write_flash_v3 K0 T_idle 0x8000 [0x11, 0x22] 2 True (mk_world 8 0 [])
     = Some (True, (mk_world 8 0 [])\<lparr>trace :=
         [LD8 0x1006, ST8 0x8000 0xFF, ST8 0x1000 8, LD8 0x1006,
          STS8RSD 0x8000 [0x11, 0x22] 2, ST8 0x1000 4]\<rparr>)
   \<and> write_flash_v0 K0 T_idle 0x8000 [0x11, 0x22] 2 False (mk_world 8 0 [])
     = Some (True, (mk_world 8 0 [])\<lparr>trace :=
         [LD8 0x1002, STS8RSD 0x8000 [0x11, 0x22] 2, ST8 0x1000 3]\<rparr>)
   \<and> write_flash_v2 K0 T_idle 0x8000 [0x11, 0x22] 2 False (mk_world 8 0 [])
     = Some (True, (mk_world 8 0 [])\<lparr>trace :=
         [LD8 0x1002, LD8 0x1000, ST8 0x1000 0, ST8 0x1000 2,
          STS8RSD 0x8000 [0x11, 0x22] 2, LD8 0x1002, LD8 0x1000]\<rparr>)
   \<and> write_flash_v3 K0 T_idle 0x8000 [0x11, 0x22] 2 False (mk_world 8 0 [])
     = Some (True, (mk_world 8 0 [])\<lparr>trace :=
         [LD8 0x1006, ST8 0x1000 0x0F, LD8 0x1006, STS8RSD 0x8000 [0x11, 0x22] 2,
          ST8 0x1000 4]\<rparr>)"
  using flash_writers_erase_order [where K = K0 and T = T_idle and a = "0x8000"
      and d = "[0x11, 0x22]" and n = 2 and w = "mk_world 8 0 []"]
  by (simp add: flash_eval T_idle_def)

text \<open>
  Claim C1 as stated fails for version 2: on a target whose control register still
  reads FLPER when the call starts, the page-boundary write stores the 0xFF trigger and
  loads its data, and no FLPER store is ever issued.
\<close>

theorem flash_v2_erase_store_skipped_counterexample:
  "write_flash_v2 K0 (T_latched 8) 0x8000 [0x11, 0x22] 2 True (mk_world 8 4 [])
     = Some (True, (mk_world 8 4 [])\<lparr>trace :=
         [LD8 0x1002, LD8 0x1000, ST8 0x8000 0xFF,
          LD8 0x1002, LD8 0x1000, ST8 0x1000 0, ST8 0x1000 2,
          STS8RSD 0x8000 [0x11, 0x22] 2, LD8 0x1002, LD8 0x1000, ST8 0x1000 0],
          UPDI_LASTL := 2\<rparr>)
   \<and> ST8 (NVMCTRL_REG_CTRLA K0) (NVM_V2_CMD_FLPER K0)
       \<notin> set [LD8 0x1002, LD8 0x1000, ST8 0x8000 0xFF,
          LD8 0x1002, LD8 0x1000, ST8 0x1000 0, ST8 0x1000 2,
          STS8RSD 0x8000 [0x11, 0x22] 2, LD8 0x1002, LD8 0x1000, ST8 0x1000 0]"
  by (simp add: flash_eval T_latched_def)

subsection \<open>The byte counts of a read\<close>

lemma and1_odd: "((n::u16) AND 1 \<noteq> 0) = odd (unat n)"
proof -
  have "unat (n AND 1) = unat n AND 1"
    by (simp add: unsigned_and_eq)
  also have "\<dots> = unat n mod 2"
    by (simp add: and_one_eq)
  finally have "unat (n AND 1) = unat n mod 2" .
  then show ?thesis
    by (metis unat_eq_zero even_iff_mod_2_eq_zero)
qed

lemma rejected_count_iff:
  "((n::u16) = 0 \<or> n > 512 \<or> (n > 256 \<and> n AND 1 \<noteq> 0))
     = (unat n < 1 \<or> 512 < unat n \<or> (256 < unat n \<and> odd (unat n)))"
  by (simp add: and1_odd word_less_nat_alt unat_eq_zero)

lemma accepted_count:
  assumes "1 \<le> unat (n::u16)" and "unat n \<le> 256 \<or> (unat n \<le> 512 \<and> even (unat n))"
  shows "\<not> (n = 0 \<or> n > 512 \<or> (n > 256 \<and> n AND 1 \<noteq> 0))"
  using assms rejected_count_iff [of n] by auto

lemma read_signature_keeps:
  "response (snd (read_signature K T a w)) = response w"
  "size_word0 (packet (snd (read_signature K T a w))) = size_word0 (packet w)"
  by (simp_all add: read_signature_def set_signature_def set_body_def lds8_def load_call_def
      issue_def Let_def case_prod_beta)

lemma read_signature_locked_trace:
  "\<not> bit (UPDI_CONTROL w) (UPDI_PROG_bp K) \<Longrightarrow> trace (snd (read_signature K T a w)) = trace w"
  by (simp add: read_signature_def set_signature_def set_body_def Let_def)

text \<open>
  Claim C4. \<open>read_memory\<close> rejects exactly the counts outside 1..512 and the odd counts
  above 256. A rejected count (0, 513 and 257 are such) gives the result true with the
  response ILLEGAL_MEMORY_RANGE; the state is otherwise unchanged but for the message
  id, so nothing is read from the target. Any count in 1..256 and any even count in
  258..512 is not rejected: the response code is left as it was and the size word is set
  to the count plus one.
\<close>

theorem read_memory_count_validation:
  "((unat n < 1 \<or> 512 < unat n \<or> (256 < unat n \<and> odd (unat n))) \<longrightarrow>
      read_memory K T start_addr n w
        = (True, w\<lparr>response := RSP_ILLEGAL_MEMORY_RANGE K,
                   packet := (packet w)\<lparr>body := (body (packet w))[MESSAGE_ID K := RSP_MEMORY K]\<rparr>\<rparr>))
   \<and> ((1 \<le> unat n \<and> unat n \<le> 256) \<or> (258 \<le> unat n \<and> unat n \<le> 512 \<and> even (unat n)) \<longrightarrow>
        response (snd (read_memory K T start_addr n w)) = response w
        \<and> size_word0 (packet (snd (read_memory K T start_addr n w))) = n + 1)"
proof (rule conjI; rule impI)
  assume "unat n < 1 \<or> 512 < unat n \<or> (256 < unat n \<and> odd (unat n))"
  with rejected_count_iff [of n] have "n = 0 \<or> n > 512 \<or> (n > 256 \<and> n AND 1 \<noteq> 0)"
    by blast
  then show "read_memory K T start_addr n w
        = (True, w\<lparr>response := RSP_ILLEGAL_MEMORY_RANGE K,
                   packet := (packet w)\<lparr>body := (body (packet w))[MESSAGE_ID K := RSP_MEMORY K]\<rparr>\<rparr>)"
    by (simp add: read_memory_def set_response_def set_body_def Let_def)
next
  assume "(1 \<le> unat n \<and> unat n \<le> 256) \<or> (258 \<le> unat n \<and> unat n \<le> 512 \<and> even (unat n))"
  then have "\<not> (unat n < 1 \<or> 512 < unat n \<or> (256 < unat n \<and> odd (unat n)))"
    by auto
  with rejected_count_iff [of n]
  have acc: "\<not> (n = 0 \<or> n > 512 \<or> (n > 256 \<and> n AND 1 \<noteq> 0))"
    by blast
  show "response (snd (read_memory K T start_addr n w)) = response w
        \<and> size_word0 (packet (snd (read_memory K T start_addr n w))) = n + 1"
    using acc unfolding read_memory_def Let_def
    by (auto simp: read_signature_keeps set_body_def lds8_def lds16_def load_call_def
        issue_def case_prod_beta)
qed

text \<open>
  The counts 257 (rejected) and 258 (accepted).
\<close>

theorem read_memory_count_validation_witness:
  "read_memory K0 T_idle 0x8000 257 (mk_world 8 0 [0, 0xB0])
     = (True, (mk_world 8 0 [0x82, 0xB0])\<lparr>response := 0xA5\<rparr>)
   \<and> response (snd (read_memory K0 T_idle 0x8000 258 (mk_world 8 0 [0, 0xB0]))) = 0
   \<and> size_word0 (packet (snd (read_memory K0 T_idle 0x8000 258 (mk_world 8 0 [0, 0xB0])))) = 259"
  using read_memory_count_validation [where n = 257 and K = K0 and T = T_idle
      and start_addr = "0x8000" and w = "mk_world 8 0 [0, 0xB0]"]
    read_memory_count_validation [where n = 258 and K = K0 and T = T_idle
      and start_addr = "0x8000" and w = "mk_world 8 0 [0, 0xB0]"]
  by (simp add: K0_def mk_world_def)

subsection \<open>Reading a locked target\<close>

lemma fill_ff_eq: "fill_ff p n buf = poke p (replicate (unat (n - 1) + 1) 0xFF) buf"
proof (induction p n buf rule: fill_ff.induct)
  case (1 p n buf)
  show ?case
  proof (cases "n - 1 = 0")
    case True
    then show ?thesis
      by (subst fill_ff.simps) (simp add: Let_def)
  next
    case False
    with unat_pred_Suc [of "n - 1"] have "unat (n - 1) = unat (n - 1 - 1) + 1"
      by argo
    with False 1 [OF refl refl False] show ?thesis
      by (subst fill_ff.simps) (simp add: Let_def)
  qed
qed

lemma fill_ff_count:
  assumes "n \<noteq> 0"
  shows "fill_ff p n buf = poke p (replicate (unat n) 0xFF) buf"
proof -
  from assms have "unat (n - 1) + 1 = unat n" by (rule unat_pred_Suc)
  then show ?thesis by (simp only: fill_ff_eq)
qed

lemma fill_ff_wraps: "fill_ff p 0 buf = poke p (replicate 65536 0xFF) buf"
proof -
  have "unat ((0::u16) - 1) + 1 = 65536" by (simp add: unsigned_minus_1_eq_mask mask_eq_exp_minus_1)
  then show ?thesis by (simp only: fill_ff_eq)
qed

text \<open>
  Claim C5, as amended. With the program-mode flag clear, \<open>read_memory\<close> makes no
  transport call, whatever the count and the address. For an accepted count \<open>n\<close>, and
  unless the read is a one-byte read of the signature memory type (which goes to
  \<open>read_signature\<close>), it returns true and stores \<open>n\<close> bytes 0xFF into the packet body from
  \<open>RSP_DATA\<close> on.
\<close>

theorem read_memory_locked_fill:
  assumes "\<not> bit (UPDI_CONTROL w) (UPDI_PROG_bp K)"
  shows "trace (snd (read_memory K T start_addr n w)) = trace w
     \<and> (1 \<le> unat n \<and> (unat n \<le> 256 \<or> (unat n \<le> 512 \<and> even (unat n)))
          \<and> \<not> is_signature_read K n w \<longrightarrow>
        read_memory K T start_addr n w
          = (True, w\<lparr>packet := (packet w)\<lparr>size_word0 := n + 1,
                body := poke (RSP_DATA K) (replicate (unat n) 0xFF)
                          ((body (packet w))[MESSAGE_ID K := RSP_MEMORY K])\<rparr>\<rparr>)
        \<and> (\<forall>i<unat n. RSP_DATA K + i < length (body (packet w)) \<longrightarrow>
              body (packet (snd (read_memory K T start_addr n w))) ! (RSP_DATA K + i) = 0xFF))"
proof (rule conjI)
  show "trace (snd (read_memory K T start_addr n w)) = trace w"
    using assms unfolding read_memory_def Let_def
    by (auto simp: read_signature_locked_trace set_body_def set_response_def)
next
  show "1 \<le> unat n \<and> (unat n \<le> 256 \<or> (unat n \<le> 512 \<and> even (unat n)))
          \<and> \<not> is_signature_read K n w \<longrightarrow>
        read_memory K T start_addr n w
          = (True, w\<lparr>packet := (packet w)\<lparr>size_word0 := n + 1,
                body := poke (RSP_DATA K) (replicate (unat n) 0xFF)
                          ((body (packet w))[MESSAGE_ID K := RSP_MEMORY K])\<rparr>\<rparr>)
        \<and> (\<forall>i<unat n. RSP_DATA K + i < length (body (packet w)) \<longrightarrow>
              body (packet (snd (read_memory K T start_addr n w))) ! (RSP_DATA K + i) = 0xFF)"
  proof (intro impI, elim conjE)
    assume n1: "1 \<le> unat n" and n2: "unat n \<le> 256 \<or> (unat n \<le> 512 \<and> even (unat n))"
      and nosig: "\<not> is_signature_read K n w"
    from accepted_count [OF n1 n2] have acc: "\<not> (n = 0 \<or> n > 512 \<or> (n > 256 \<and> n AND 1 \<noteq> 0))" .
    then have n0: "n \<noteq> 0" by simp
    have eq: "read_memory K T start_addr n w
          = (True, w\<lparr>packet := (packet w)\<lparr>size_word0 := n + 1,
                body := poke (RSP_DATA K) (replicate (unat n) 0xFF)
                          ((body (packet w))[MESSAGE_ID K := RSP_MEMORY K])\<rparr>\<rparr>)"
      using assms acc nosig unfolding read_memory_def Let_def is_signature_read_def
      by (auto simp: set_body_def fill_ff_count [OF n0])
    show "read_memory K T start_addr n w
          = (True, w\<lparr>packet := (packet w)\<lparr>size_word0 := n + 1,
                body := poke (RSP_DATA K) (replicate (unat n) 0xFF)
                          ((body (packet w))[MESSAGE_ID K := RSP_MEMORY K])\<rparr>\<rparr>)
        \<and> (\<forall>i<unat n. RSP_DATA K + i < length (body (packet w)) \<longrightarrow>
              body (packet (snd (read_memory K T start_addr n w))) ! (RSP_DATA K + i) = 0xFF)"
      by (simp add: eq nth_poke)
  qed
qed

text \<open>
  Three bytes read from a target in info mode.
\<close>

theorem read_memory_locked_fill_witness:
  "\<not> bit (UPDI_CONTROL (mk_world 4 0 [0, 0xB0, 7, 7, 7])) (UPDI_PROG_bp K0)
   \<and> \<not> is_signature_read K0 3 (mk_world 4 0 [0, 0xB0, 7, 7, 7])
   \<and> read_memory K0 T_idle 0x8000 3 (mk_world 4 0 [0, 0xB0, 7, 7, 7])
       = (True, (mk_world 4 0 [0, 0xB0, 7, 7, 7])
            \<lparr>packet := \<lparr>size_word0 = 4, body = [0x82, 0xFF, 0xFF, 0xFF, 7]\<rparr>\<rparr>)"
proof -
  have locked: "\<not> bit (UPDI_CONTROL (mk_world 4 0 b)) (UPDI_PROG_bp K0)" for b
    by (simp add: mk_world_def K0_def)
  have nosig: "\<not> is_signature_read K0 3 w" for w
    by (simp add: is_signature_read_def)
  have "unat (3::u16) = Suc (Suc (Suc 0))" by simp
  then have three: "replicate (unat (3::u16)) x = [x, x, x]" for x :: byte
    by (simp only: replicate.simps)
  show ?thesis
    using read_memory_locked_fill [OF locked [of "[0, 0xB0, 7, 7, 7]"], where n = 3 and T = T_idle
        and start_addr = "0x8000"]
    by (simp add: read_memory_def set_body_def fill_ff.simps is_signature_read_def Let_def
        K0_def mk_world_def)
qed

text \<open>
  Claim C5 as stated fails for a one-byte read of the signature memory type: in info
  mode the byte returned at the canonical offset is 0x1E, the first byte of the
  synthesized signature, not 0xFF.
\<close>

theorem read_memory_locked_signature_counterexample:
  "\<not> bit (UPDI_CONTROL (mk_world 4 0 [0, 0xB4, 0, 0])) (UPDI_PROG_bp K0)
   \<and> read_memory K0 T_idle 0x1100 1 (mk_world 4 0 [0, 0xB4, 0, 0])
       = (True, (mk_world 4 0 [0, 0xB4, 0, 0])
            \<lparr>updi_desc := \<lparr>flash_page_size = 64, sib = replicate 32 0x20,
                            signature = [0x1E, 0x20, 0x20], nvm_signature_offset = 0x1100\<rparr>,
              packet := \<lparr>size_word0 = 2, body = [0x82, 0x1E, 0, 0]\<rparr>\<rparr>)
   \<and> [0x82, 0x1E, 0, 0] ! RSP_DATA K0 \<noteq> (0xFF :: byte)"
  by (simp add: read_memory_def read_signature_def set_signature_def set_body_def Let_def
      K0_def mk_world_def)

subsection \<open>Signature reading\<close>

text \<open>
  Claim C6, as amended. A read at the canonical offset in program mode always queries
  the target. When that block load fails, the signature becomes 0, 0, 0 and the byte
  returned is 0, whatever signature an earlier call had left in the descriptor.
\<close>

theorem read_signature_transport_failure:
  assumes "bit (UPDI_CONTROL w) (UPDI_PROG_bp K)"
    and "start_addr = canonical_offset K w"
    and "\<not> fst (t_load T (trace w) (LDS8 (ucast start_addr) 3))"
    and "length (signature (updi_desc w)) = 3"
  shows "read_signature K T start_addr w
           = (True, w\<lparr>trace := trace w @ [LDS8 (ucast start_addr) 3],
                       updi_desc := (updi_desc w)\<lparr>nvm_signature_offset := start_addr,
                                                  signature := [0, 0, 0]\<rparr>,
                       packet := (packet w)\<lparr>body := (body (packet w))[RSP_DATA K := 0]\<rparr>\<rparr>)"
  using assms
  by (simp add: read_signature_def canonical_offset_def lds8_def load_call_def issue_def
      set_signature_def set_body_def Let_def case_prod_beta three_updates)

text \<open>
  The second of two reads at the canonical offset, on a target whose first block load
  succeeds and whose second fails.
\<close>

theorem read_signature_transport_failure_witness:
  "read_signature K0 T_sig_once 0x1100
     (snd (read_signature K0 T_sig_once 0x1100 (mk_world 8 0 [0, 0])))
   = (True, (mk_world 8 0 [0, 0])
        \<lparr>trace := [LDS8 0x1100 3, LDS8 0x1100 3],
          updi_desc := \<lparr>flash_page_size = 64, sib = replicate 32 0x20,
                         signature = [0, 0, 0], nvm_signature_offset = 0x1100\<rparr>,
          packet := \<lparr>size_word0 = 0, body = [0, 0]\<rparr>\<rparr>)"
  using read_signature_transport_failure [where K = K0 and T = T_sig_once
      and start_addr = "0x1100"
      and w = "snd (read_signature K0 T_sig_once 0x1100 (mk_world 8 0 [0, 0]))"]
  by (simp add: read_signature_def canonical_offset_def lds8_def load_call_def issue_def
      set_signature_def set_body_def Let_def K0_def T_sig_once_def mk_world_def)

text \<open>
  Claim C6 as stated fails: the first read caches the signature 0x1E, 0x93, 0x22 and
  returns 0x1E; the second read at the same offset, whose block load fails, returns 0
  and leaves the signature 0, 0, 0.
\<close>

theorem read_signature_cache_lost_counterexample:
  "signature (updi_desc (snd (read_signature K0 T_sig_once 0x1100 (mk_world 8 0 [0, 0]))))
     = [0x1E, 0x93, 0x22]
   \<and> body (packet (snd (read_signature K0 T_sig_once 0x1100 (mk_world 8 0 [0, 0]))))
       ! RSP_DATA K0 = 0x1E
   \<and> fst (read_signature K0 T_sig_once 0x1100
            (snd (read_signature K0 T_sig_once 0x1100 (mk_world 8 0 [0, 0]))))
   \<and> body (packet (snd (read_signature K0 T_sig_once 0x1100
            (snd (read_signature K0 T_sig_once 0x1100 (mk_world 8 0 [0, 0]))))))
       ! RSP_DATA K0 = 0
   \<and> signature (updi_desc (snd (read_signature K0 T_sig_once 0x1100
            (snd (read_signature K0 T_sig_once 0x1100 (mk_world 8 0 [0, 0]))))))
       = [0, 0, 0]"
  by (simp add: read_signature_def lds8_def load_call_def issue_def
      set_signature_def set_body_def Let_def K0_def T_sig_once_def mk_world_def)

subsection \<open>The write dispatcher\<close>

text \<open>
  Claim C2, as amended. In program mode, a request that is dispatched as a flash write
  (its address has a zero top byte and its memory type is one of the three flash types)
  and whose byte count is neither the page size of the descriptor nor 256 gives the
  result true with the response NO_TARGET_POWER and changes nothing else: no transport
  call is made and no writer is run. The generation flags are not looked at.
\<close>

theorem write_memory_flash_page_mismatch:
  assumes "bit (UPDI_CONTROL w) (UPDI_PROG_bp K)"
    and "is_flash_type (dispatch_mem_type K w)"
    and "req_byte_count K w \<noteq> flash_page_size (updi_desc w)"
    and "req_byte_count K w \<noteq> 256"
  shows "write_memory K T w = Some (True, w\<lparr>response := RSP_NO_TARGET_POWER K\<rparr>)"
proof -
  from assms(2) have "dispatch_mem_type K w \<noteq> MTYPE_XMEGA_USERSIG"
    by (auto simp: is_flash_type_def MTYPE_defs)
  with assms show ?thesis
    by (auto simp: write_memory_def Let_def set_response_def)
qed

text \<open>
  A count of 3 against a page size of 64, for each flash type and each generation.
\<close>

theorem write_memory_flash_page_mismatch_witness:
  "write_memory K0 T_idle (mk_world 8 0 [0x04, 0xB0, 3, 0, 0, 0, 0, 0x80, 0, 0, 1, 2, 3])
     = Some (True, (mk_world 8 0 [0x04, 0xB0, 3, 0, 0, 0, 0, 0x80, 0, 0, 1, 2, 3])
                \<lparr>response := 0xAB\<rparr>)
   \<and> write_memory K0 T_idle (mk_world 8 4 [0x04, 0xC0, 3, 0, 0, 0, 0, 0x80, 0, 0, 1, 2, 3])
     = Some (True, (mk_world 8 4 [0x04, 0xC0, 3, 0, 0, 0, 0, 0x80, 0, 0, 1, 2, 3])
                \<lparr>response := 0xAB\<rparr>)
   \<and> write_memory K0 T_idle (mk_world 8 8 [0x04, 0xC1, 3, 0, 0, 0, 0, 0x80, 0, 0, 1, 2, 3])
     = Some (True, (mk_world 8 8 [0x04, 0xC1, 3, 0, 0, 0, 0, 0x80, 0, 0, 1, 2, 3])
                \<lparr>response := 0xAB\<rparr>)"
proof -
  have prog: "bit (UPDI_CONTROL (mk_world 8 g b)) (UPDI_PROG_bp K0)" for g b
    by (simp add: mk_world_def K0_def)
  have ty: "mt = 0xB0 \<or> mt = 0xC0 \<or> mt = 0xC1 \<Longrightarrow>
      is_flash_type (dispatch_mem_type K0 (mk_world 8 g [0x04, mt, 3, 0, 0, 0, 0, 0x80, 0, 0, 1, 2, 3]))"
    for mt g
    by (auto simp: is_flash_type_def dispatch_mem_type_def req_start_addr_def req_mem_type_def
        caps32_def K0_def mk_world_def MTYPE_defs)
  have cnt: "req_byte_count K0 (mk_world 8 g [0x04, mt, 3, 0, 0, 0, 0, 0x80, 0, 0, 1, 2, 3]) = 3"
    for mt g
    by (simp add: req_byte_count_def caps16_def K0_def mk_world_def)
  have ps: "flash_page_size (updi_desc (mk_world 8 g b)) = 64" for g b
    by (simp add: mk_world_def)
  have rsp: "RSP_NO_TARGET_POWER K0 = 0xAB"
    by (simp add: K0_def)
  show ?thesis
    using write_memory_flash_page_mismatch [OF prog ty [of "0xB0" 0], where T = T_idle]
      write_memory_flash_page_mismatch [OF prog ty [of "0xC0" 4], where T = T_idle]
      write_memory_flash_page_mismatch [OF prog ty [of "0xC1" 8], where T = T_idle]
    by (simp add: cnt ps rsp)
qed

text \<open>
  Claim C2 as stated fails when the target is not in program mode: the same request
  gives the result false and the response stays OK.
\<close>

theorem write_memory_flash_locked_counterexample:
  "is_flash_type (req_mem_type K0 (mk_world 0 0 [0x04, 0xB0, 3, 0, 0, 0, 0, 0x80, 0, 0, 1, 2, 3]))
   \<and> req_byte_count K0 (mk_world 0 0 [0x04, 0xB0, 3, 0, 0, 0, 0, 0x80, 0, 0, 1, 2, 3]) = 3
   \<and> flash_page_size (updi_desc (mk_world 0 0 [0x04, 0xB0, 3, 0, 0, 0, 0, 0x80, 0, 0, 1, 2, 3])) = 64
   \<and> write_memory K0 T_idle (mk_world 0 0 [0x04, 0xB0, 3, 0, 0, 0, 0, 0x80, 0, 0, 1, 2, 3])
       = Some (False, (mk_world 0 0 [0x04, 0xB0, 3, 0, 0, 0, 0, 0x80, 0, 0, 1, 2, 3])
                \<lparr>response := RSP_OK K0\<rparr>)
   \<and> RSP_OK K0 \<noteq> RSP_NO_TARGET_POWER K0"
  by (simp add: write_memory_def dispatch_mem_type_def dispatch_start_addr_def
      req_byte_count_def req_start_addr_def req_mem_type_def req_data_def caps16_def caps32_def
      is_flash_type_def set_response_def Let_def K0_def mk_world_def MTYPE_defs)

text \<open>
  Claim C9. With the info flag set and the user-signature memory type (the memory type
  the function dispatches on; a request address with a non-zero top byte turns it into
  SRAM), \<open>write_memory\<close> sets the response OK and calls \<open>write_userrow\<close> with the
  address, the data and the byte count of the request as they are; the result of the
  call is that of \<open>write_userrow\<close>. Nothing is assumed about the count.
\<close>

theorem write_memory_userrow_unchecked:
  assumes "bit (UPDI_CONTROL w) (UPDI_INFO_bp K)"
    and "dispatch_mem_type K w = MTYPE_XMEGA_USERSIG"
  shows "write_memory K T w =
           Some (t_store T (trace w)
                   (WRITE_USERROW (req_start_addr K w)
                      (take (unat (req_byte_count K w)) (req_data K w)) (req_byte_count K w)),
                 w\<lparr>trace := trace w @
                      [WRITE_USERROW (req_start_addr K w)
                         (take (unat (req_byte_count K w)) (req_data K w)) (req_byte_count K w)],
                   response := RSP_OK K\<rparr>)"
proof -
  from assms(2) have "dispatch_start_addr K w = req_start_addr K w"
    by (auto simp: dispatch_mem_type_def dispatch_start_addr_def MTYPE_defs split: if_splits)
  with assms show ?thesis
    by (simp add: write_memory_def Let_def write_userrow_def store_call_def issue_def
        set_response_def)
qed

text \<open>
  Counts of 33, 0 and 300.
\<close>

theorem write_memory_userrow_unchecked_witness:
  "bit (UPDI_CONTROL (mk_world 4 0 [0x04, 0xC5, 0x21, 0, 0, 0, 0, 0x13, 0, 0, 0xAA, 0xBB]))
       (UPDI_INFO_bp K0)
   \<and> dispatch_mem_type K0 (mk_world 4 0 [0x04, 0xC5, 0x21, 0, 0, 0, 0, 0x13, 0, 0, 0xAA, 0xBB])
       = MTYPE_XMEGA_USERSIG
   \<and> write_memory K0 T_idle (mk_world 4 0 [0x04, 0xC5, 0x21, 0, 0, 0, 0, 0x13, 0, 0, 0xAA, 0xBB])
       = Some (True, (mk_world 4 0 [0x04, 0xC5, 0x21, 0, 0, 0, 0, 0x13, 0, 0, 0xAA, 0xBB])
                \<lparr>trace := [WRITE_USERROW 0x1300 [0xAA, 0xBB] 33], response := 0x80\<rparr>)
   \<and> write_memory K0 T_idle (mk_world 4 0 [0x04, 0xC5, 0, 0, 0, 0, 0, 0x13, 0, 0])
       = Some (True, (mk_world 4 0 [0x04, 0xC5, 0, 0, 0, 0, 0, 0x13, 0, 0])
                \<lparr>trace := [WRITE_USERROW 0x1300 [] 0], response := 0x80\<rparr>)
   \<and> write_memory K0 T_idle (mk_world 4 0 [0x04, 0xC5, 0x2C, 0x01, 0, 0, 0, 0x13, 0, 0, 0xAA])
       = Some (True, (mk_world 4 0 [0x04, 0xC5, 0x2C, 0x01, 0, 0, 0, 0x13, 0, 0, 0xAA])
                \<lparr>trace := [WRITE_USERROW 0x1300 [0xAA] 300], response := 0x80\<rparr>)"
proof -
  have info: "bit (UPDI_CONTROL (mk_world 4 0 b)) (UPDI_INFO_bp K0)" for b
    by (simp add: mk_world_def K0_def)
  have ty: "dispatch_mem_type K0 (mk_world 4 0 (0x04 # 0xC5 # l0 # l1 # 0 # 0 # 0 # 0x13 # 0 # 0 # d))
              = MTYPE_XMEGA_USERSIG" for l0 l1 d
    by (simp add: dispatch_mem_type_def req_start_addr_def req_mem_type_def caps32_def
        K0_def mk_world_def MTYPE_defs)
  show ?thesis
    using write_memory_userrow_unchecked [OF info ty [of "0x21" 0 "[0xAA, 0xBB]"], where T = T_idle]
      write_memory_userrow_unchecked [OF info ty [of 0 0 "[]"], where T = T_idle]
      write_memory_userrow_unchecked [OF info ty [of "0x2C" 1 "[0xAA]"], where T = T_idle]
      info ty [of "0x21" 0 "[0xAA, 0xBB]"]
    by (simp add: req_byte_count_def req_start_addr_def req_data_def caps16_def caps32_def
        K0_def mk_world_def T_idle_def)
qed

subsection \<open>The two counted loops\<close>






text \<open>
  The guard matters: entered with a count of 0, the fill loop would store 65536 bytes
  (\<open>fill_ff_wraps\<close>). And the fuse loop need not return at all: the status waiter
  has no timeout, so on a target that stays busy the call never comes back.
\<close>

lemma nvm_wait_reg_hangs:
  assumes "\<And>tr. t_ld8 T tr reg AND 3 \<noteq> 0"
  shows "nvm_wait_reg T reg w = None"
proof (cases "nvm_wait_reg T reg w")
  case None
  then show ?thesis .
next
  case (Some y)
  from nvm_wait_reg_Some [OF this] assms show ?thesis
    by (auto simp: status_at_def)
qed

lemma write_memory_fuse_hangs:
  "write_memory K0 T_busy (mk_world 8 0 [0x04, 0xB2, 2, 0, 0, 0, 0x80, 0x12, 0, 0, 0xAA, 0xBB])
     = None"
proof -
  have "nvm_wait K0 T_busy w = None" for w
    unfolding nvm_wait_def by (rule nvm_wait_reg_hangs) (simp add: T_busy_def)
  then have "write_fuse K0 T_busy a d w = None" for a d w
    by (simp add: write_fuse_def)
  then have "write_fuse_loop K0 T_busy a d n w = None" for a d n w
    by (subst write_fuse_loop.simps) simp
  then show ?thesis
    by (simp add: write_memory_def set_response_def dispatch_mem_type_def
        dispatch_start_addr_def req_byte_count_def req_start_addr_def req_mem_type_def
        caps16_def caps32_def is_flash_type_def Let_def K0_def mk_world_def MTYPE_defs)
qed

end
